theory Spec2Isabelle
  imports Main "HOL-Library.Word"
begin

unbundle bit_operations_syntax

section \<open>Values shared by the whole platform\<close>

text \<open>
  A Go \<open>error\<close> is an interface value: either \<open>nil\<close> (modelled as \<open>None\<close>) or a
  dynamic value. \<open>unix.Errno\<close> is a \<open>uintptr\<close>; every other error type is opaque here.
  Comparing an \<open>error\<close> with an \<open>Errno\<close> constant is equality of these values.
\<close>

datatype error = Errno "64 word" | ErrOther string

definition EINTR :: error where "EINTR = Errno 4"
definition EAGAIN :: error where "EAGAIN = Errno 11"

text \<open>subprocess.go, lines 68-72.\<close>

definition ERESTARTSYS :: error where "ERESTARTSYS = Errno 512"
definition ERESTARTNOINTR :: error where "ERESTARTNOINTR = Errno 513"
definition ERESTARTNOHAND :: error where "ERESTARTNOHAND = Errno 514"

text \<open>\<open>unix.Signal\<close> is a Go \<open>int\<close>; the values below are those of Linux.\<close>

definition SIGTRAP :: int where "SIGTRAP = 5"
definition SIGKILL :: int where "SIGKILL = 9"
definition SIGSEGV :: int where "SIGSEGV = 11"
definition SIGCHLD :: int where "SIGCHLD = 17"
definition SIGCONT :: int where "SIGCONT = 18"
definition SIGSTOP :: int where "SIGSTOP = 19"

definition PTRACE_CONT :: "64 word" where "PTRACE_CONT = 7"
definition PTRACE_ATTACH :: "64 word" where "PTRACE_ATTACH = 16"
definition PTRACE_DETACH :: "64 word" where "PTRACE_DETACH = 17"
definition PTRACE_SETOPTIONS :: "64 word" where "PTRACE_SETOPTIONS = 0x4200"
definition PTRACE_O_TRACESYSGOOD :: "64 word" where "PTRACE_O_TRACESYSGOOD = 1"
definition PTRACE_O_TRACEEXIT :: "64 word" where "PTRACE_O_TRACEEXIT = 0x40"
definition PTRACE_O_EXITKILL :: "64 word" where "PTRACE_O_EXITKILL = 0x100000"
definition PTRACE_EVENT_EXIT :: int where "PTRACE_EVENT_EXIT = 6"
definition WALL :: int where "WALL = 0x40000000"
definition WUNTRACED :: int where "WUNTRACED = 2"

subsection \<open>\<open>unix.WaitStatus\<close>\<close>

text \<open>
  The wait status is a \<open>uint32\<close>; its accessors are those of \<open>golang.org/x/sys/unix\<close>
  on Linux (mask \<open>0x7F\<close>, stopped \<open>0x7F\<close>, exited \<open>0\<close>, shift \<open>8\<close>). Every accessor
  answers \<open>-1\<close> when the status is not of its kind.
\<close>

definition Exited :: "32 word \<Rightarrow> bool" where
  "Exited w = (w AND 0x7F = 0)"

definition Signaled :: "32 word \<Rightarrow> bool" where
  "Signaled w = (w AND 0x7F \<noteq> 0x7F \<and> w AND 0x7F \<noteq> 0)"

definition Stopped :: "32 word \<Rightarrow> bool" where
  "Stopped w = (w AND 0xFF = 0x7F)"

definition ExitStatus :: "32 word \<Rightarrow> int" where
  "ExitStatus w = (if \<not> Exited w then - 1 else uint (drop_bit 8 w) AND 0xFF)"

definition Signal :: "32 word \<Rightarrow> int" where
  "Signal w = (if \<not> Signaled w then - 1 else uint (w AND 0x7F))"

definition StopSignal :: "32 word \<Rightarrow> int" where
  "StopSignal w = (if \<not> Stopped w then - 1 else uint (drop_bit 8 w) AND 0xFF)"

definition TrapCause :: "32 word \<Rightarrow> int" where
  "TrapCause w = (if StopSignal w \<noteq> SIGTRAP then - 1 else drop_bit 8 (uint (drop_bit 8 w)))"

subsection \<open>Registers and threads\<close>

text \<open>
  \<open>arch.Registers\<close> embeds \<open>linux.PtraceRegs\<close>, a block of 64-bit registers: the
  list of their values, in the order of the structure's fields.
\<close>

record Registers =
  PtraceRegs :: "64 word list"

text \<open>subprocess.go, lines 77-88.\<close>

record thread =
  tgid :: "32 word"
  tid :: "32 word"
  sysmsgStackID :: "64 word"
  initRegs :: Registers

text \<open>subprocess.go, lines 367-375.\<close>

datatype waitOutcome = stopped | killed | unknownOutcome int

subsection \<open>The shared message\<close>

text \<open>
  Modelled from the spec: the declarations of package \<open>sysmsg\<close> are not in
  subprocess.go. Section 3 of the spec lists the message: state in \<open>{None, Done, ...}\<close>;
  event type in \<open>{Syscall, SyscallTrap, SyscallCanBePatched, Fault, Interrupt}\<close>;
  register block; signal-info block; error code and source line; self, handler and
  stack addresses; interrupt flag. The stub dispatcher below also reads the saved
  return address and the application's stack pointer. The message is memory the stub
  writes, so a state or an event type the enumeration does not name is kept as the
  number found there, and the fields not named here are kept as their bytes.
\<close>

datatype ThreadState = StateNone | StateDone | StateOther "32 word"

datatype EventType =
    EventTypeSyscall
  | EventTypeSyscallCanBePatched
  | EventTypeSyscallTrap
  | EventTypeFault
  | EventTypeInterrupt
  | EventTypeOther "32 word"

text \<open>
  \<open>linux.SignalInfo\<close> has the layout of the kernel's \<open>siginfo_t\<close>: three 32-bit
  numbers and the bytes of the union that follows.
\<close>

record SignalInfo =
  Signo :: "32 word"
  Errno_si :: "32 word"
  Code :: "32 word"
  Fields :: "8 word list"

record Msg =
  Self :: "64 word"
  RetAddr :: "64 word"
  Syshandler :: "64 word"
  SyshandlerStack :: "64 word"
  AppStack :: "64 word"
  Interrupt :: "32 word"
  State :: ThreadState
  Type :: EventType
  Err :: "32 word"
  Line :: "32 word"
  Regs :: "64 word list"
  MsgSignalInfo :: SignalInfo
  Extra :: "8 word list"

subsection \<open>Stub threads, contexts, subprocesses\<close>

text \<open>
  Go pointers to subprocesses, contexts and architecture contexts are references
  (numbers) into the stores of the state below; \<open>nil\<close> is \<open>None\<close>. A stub thread and
  its message belong to one context and are kept inside it.
\<close>

type_synonym subprocessRef = nat
type_synonym contextRef = nat
type_synonym archContextRef = nat

record FileRange =
  frStart :: "64 word"
  frEnd :: "64 word"

record sysmsgThread =
  sysThread_thread :: thread
  subproc :: subprocessRef
  stackRange :: FileRange
  msg :: "Msg option"
  fpuStateToMsgOffset :: "64 word"

text \<open>
  \<open>interrupt.Forwarder\<close> is not in subprocess.go; its state is whether an interrupt is
  pending and which thread is to be notified.
\<close>

record Forwarder =
  pending :: bool
  dst :: "thread option"

record sysContext =
  lastFaultSP :: "subprocessRef option"
  lastFaultAddr :: "64 word"
  signalInfo :: SignalInfo
  ctx_sysmsgThread :: "sysmsgThread option"
  interrupt :: Forwarder

record Context64 =
  StateData_Regs :: Registers
  FloatingPointData :: "8 word list"

text \<open>
  subprocess.go, lines 106-143: the fields the functions below use. The map
  \<open>contexts\<close> is the list of its keys, in the order the \<open>range\<close> loop meets them.
\<close>

record subprocess =
  released :: bool
  numContexts :: "32 word"
  contexts :: "contextRef list"
  memoryFile :: nat

text \<open>
  Modelled from the spec: \<open>subprocessPool\<close> is not in subprocess.go. Section 4.1: a
  registry of subprocesses in active and available states.
\<close>

record subprocessPool =
  active :: "subprocessRef list"
  available :: "subprocessRef list"

subsection \<open>Messages of panics and of the log\<close>

text \<open>
  A message is kept as the list of its pieces: a literal, a \<open>fmt.Sprintf\<close> with its
  format and arguments, or the register dump \<open>dumpRegs\<close> produces.
\<close>

datatype arg = AInt int | AErr "error option" | AStr string | AType EventType | AMsg Msg

datatype piece = Str string | Sprintf string "arg list" | RegDump Registers

type_synonym message = "piece list"

datatype level = Info | Warning

section \<open>The world outside the functions under verification\<close>

text \<open>
  Every call that leaves the file (a raw system call, a ptrace helper, the logger) is
  recorded in \<open>trace\<close>, in program order. A call whose result the kernel, the stub or
  another goroutine decides takes that result from \<open>tape\<close>, the script of the
  environment's answers. When the script has no answer of the expected kind the call
  has not returned: the outcome is \<open>Blocked\<close>.
\<close>

datatype request =
    Ptrace "64 word" int "64 word" "64 word"
  | Wait4 int int
  | TgkillCall int int int
  | Getpid
  | GetRegs int
  | SetRegs int Registers
  | GetEventMessage int
  | Log level message
  | Syscall subprocessRef "64 word" "64 word list"
  | PoolRelease subprocessRef
  | RequestThread subprocessRef
  | Allocate nat "64 word"
  | DecRef nat FileRange
  | Mmap "64 word list"
  | MapStack int "64 word" bool
  | MapPrivateStack int "64 word" "64 word"
  | LoadMsg "64 word"
  | WaitEvent int ThreadState Msg
  | Destroy int

datatype response =
    RetErrno "64 word"
  | RetWait4 int "error option" "32 word"
  | RetPid int
  | RetRegs Registers "error option"
  | RetErr "error option"
  | RetEventMessage "64 word" "error option"
  | RetSyscall "64 word" "error option"
  | RetThread thread
  | RetAllocate FileRange "error option"
  | RetMmap "64 word" "64 word"
  | RetMsg Msg

record world =
  trace :: "request list"
  tape :: "response list"

text \<open>
  The Go heap the functions below read and write, on top of the world: the
  subprocesses, the contexts and the architecture contexts behind each reference, and
  the package's \<open>globalPool\<close>.
\<close>

record sentry = world +
  subprocs :: "subprocessRef \<Rightarrow> subprocess"
  ctxs :: "contextRef \<Rightarrow> sysContext"
  acs :: "archContextRef \<Rightarrow> Context64"
  globalPool :: subprocessPool

text \<open>
  How a call ends: it returns a value, the process panics, or the call is still
  waiting for the environment.
\<close>

datatype 'a exec = Return 'a | Panic message | Blocked

definition emit :: "request \<Rightarrow> 'z world_scheme \<Rightarrow> 'z world_scheme" where
  "emit q w = w\<lparr>trace := trace w @ [q]\<rparr>"

definition ext :: "request \<Rightarrow> 'z world_scheme \<Rightarrow> (response \<times> 'z world_scheme) option" where
  "ext q w = (case tape w of
       [] \<Rightarrow> None
     | r # rs \<Rightarrow> Some (r, w\<lparr>trace := trace w @ [q], tape := rs\<rparr>))"

text \<open>One reader per kind of answer.\<close>

definition askErrno :: "request \<Rightarrow> 'z world_scheme \<Rightarrow> 64 word exec \<times> 'z world_scheme" where
  "askErrno q w = (case ext q w of
       Some (RetErrno e, w1) \<Rightarrow> (Return e, w1)
     | Some (_, w1) \<Rightarrow> (Blocked, w1)
     | None \<Rightarrow> (Blocked, w))"

definition askWait4 ::
  "request \<Rightarrow> 'z world_scheme \<Rightarrow> (int \<times> error option \<times> 32 word) exec \<times> 'z world_scheme" where
  "askWait4 q w = (case ext q w of
       Some (RetWait4 r err status, w1) \<Rightarrow> (Return (r, err, status), w1)
     | Some (_, w1) \<Rightarrow> (Blocked, w1)
     | None \<Rightarrow> (Blocked, w))"

definition askPid :: "request \<Rightarrow> 'z world_scheme \<Rightarrow> int exec \<times> 'z world_scheme" where
  "askPid q w = (case ext q w of
       Some (RetPid pid, w1) \<Rightarrow> (Return pid, w1)
     | Some (_, w1) \<Rightarrow> (Blocked, w1)
     | None \<Rightarrow> (Blocked, w))"

definition askRegs ::
  "request \<Rightarrow> 'z world_scheme \<Rightarrow> (Registers \<times> error option) exec \<times> 'z world_scheme" where
  "askRegs q w = (case ext q w of
       Some (RetRegs regs err, w1) \<Rightarrow> (Return (regs, err), w1)
     | Some (_, w1) \<Rightarrow> (Blocked, w1)
     | None \<Rightarrow> (Blocked, w))"

definition askErr :: "request \<Rightarrow> 'z world_scheme \<Rightarrow> error option exec \<times> 'z world_scheme" where
  "askErr q w = (case ext q w of
       Some (RetErr err, w1) \<Rightarrow> (Return err, w1)
     | Some (_, w1) \<Rightarrow> (Blocked, w1)
     | None \<Rightarrow> (Blocked, w))"

definition askEventMessage ::
  "request \<Rightarrow> 'z world_scheme \<Rightarrow> (64 word \<times> error option) exec \<times> 'z world_scheme" where
  "askEventMessage q w = (case ext q w of
       Some (RetEventMessage emsg err, w1) \<Rightarrow> (Return (emsg, err), w1)
     | Some (_, w1) \<Rightarrow> (Blocked, w1)
     | None \<Rightarrow> (Blocked, w))"

definition askSyscall ::
  "request \<Rightarrow> 'z world_scheme \<Rightarrow> (64 word \<times> error option) exec \<times> 'z world_scheme" where
  "askSyscall q w = (case ext q w of
       Some (RetSyscall rval err, w1) \<Rightarrow> (Return (rval, err), w1)
     | Some (_, w1) \<Rightarrow> (Blocked, w1)
     | None \<Rightarrow> (Blocked, w))"

definition askThread :: "request \<Rightarrow> 'z world_scheme \<Rightarrow> thread exec \<times> 'z world_scheme" where
  "askThread q w = (case ext q w of
       Some (RetThread t, w1) \<Rightarrow> (Return t, w1)
     | Some (_, w1) \<Rightarrow> (Blocked, w1)
     | None \<Rightarrow> (Blocked, w))"

definition askAllocate ::
  "request \<Rightarrow> 'z world_scheme \<Rightarrow> (FileRange \<times> error option) exec \<times> 'z world_scheme" where
  "askAllocate q w = (case ext q w of
       Some (RetAllocate fr err, w1) \<Rightarrow> (Return (fr, err), w1)
     | Some (_, w1) \<Rightarrow> (Blocked, w1)
     | None \<Rightarrow> (Blocked, w))"

definition askMmap ::
  "request \<Rightarrow> 'z world_scheme \<Rightarrow> (64 word \<times> 64 word) exec \<times> 'z world_scheme" where
  "askMmap q w = (case ext q w of
       Some (RetMmap addr errno, w1) \<Rightarrow> (Return (addr, errno), w1)
     | Some (_, w1) \<Rightarrow> (Blocked, w1)
     | None \<Rightarrow> (Blocked, w))"

definition askMsg :: "request \<Rightarrow> 'z world_scheme \<Rightarrow> Msg exec \<times> 'z world_scheme" where
  "askMsg q w = (case ext q w of
       Some (RetMsg m, w1) \<Rightarrow> (Return m, w1)
     | Some (_, w1) \<Rightarrow> (Blocked, w1)
     | None \<Rightarrow> (Blocked, w))"

text \<open>Sequencing: whatever ends a call other than a return ends its caller too.\<close>

definition bind :: "'a exec \<times> 'w \<Rightarrow> ('a \<Rightarrow> 'w \<Rightarrow> 'b exec \<times> 'w) \<Rightarrow> 'b exec \<times> 'w" where
  "bind m f = (case m of
       (Return x, w) \<Rightarrow> f x w
     | (Panic text, w) \<Rightarrow> (Panic text, w)
     | (Blocked, w) \<Rightarrow> (Blocked, w))"

lemma bind_cong [fundef_cong]:
  "m = m' \<Longrightarrow> (\<And>x w. m' = (Return x, w) \<Longrightarrow> f x w = f' x w) \<Longrightarrow> bind m f = bind m' f'"
  by (cases m'; cases "fst m'") (auto simp: bind_def)

text \<open>
  The helpers of the package that are not in subprocess.go and compute on registers:
  they are parameters of the model.
\<close>

record archOps =
  createSyscallRegs :: "Registers \<Rightarrow> 64 word \<Rightarrow> 64 word list \<Rightarrow> Registers"
  syscallReturnValue :: "Registers \<Rightarrow> 64 word \<times> error option"
  stubStart :: "64 word"
  stubEnd :: "64 word"

text \<open>
  \<open>maximumUserAddress\<close> is \<open>linux.TaskSize\<close> and \<open>SignalInterrupt\<close> is
  \<open>platform.SignalInterrupt\<close>; the functions are the helpers \<open>switchToApp\<close> calls.
  Each takes what the Go helper reads and gives back what it may write. The registers
  \<open>switchToApp\<close> works on are those inside the architecture context, so a helper
  given both is given the context.
\<close>

record platformOps = archOps +
  maximumUserAddress :: "64 word"
  SignalInterrupt :: int
  resetSysemuRegs :: "thread \<Rightarrow> Registers \<Rightarrow> Registers"
  restoreFPState :: "Msg \<Rightarrow> 64 word \<Rightarrow> Context64 \<Rightarrow> Msg"
  interruptEnable :: "Forwarder \<Rightarrow> sysmsgThread \<Rightarrow> bool \<times> Forwarder"
  interruptDisable :: "Forwarder \<Rightarrow> Forwarder"
  restoreArchSpecificState :: "sysmsgThread \<Rightarrow> Msg \<Rightarrow> Context64 \<Rightarrow> Context64 \<times> Msg"
  EnableSentryFastPath :: "Msg \<Rightarrow> Msg"
  FPUStateOffset :: "Msg \<Rightarrow> 64 word \<times> error option"
  retrieveArchSpecificState :: "Msg \<Rightarrow> thread \<Rightarrow> Context64 \<Rightarrow> Context64"
  maybePatchSignalInfo :: "Registers \<Rightarrow> SignalInfo \<Rightarrow> bool \<times> Registers \<times> SignalInfo"
  updateSyscallRegs :: "Registers \<Rightarrow> Registers"

text \<open>
  What \<open>getSysmsgThread\<close> uses of package \<open>sysmsg\<close>, of the stub's layout and of
  the stub thread's own helpers (sysmsg_thread.go), none of them in subprocess.go.
\<close>

record sysmsgOps = platformOps +
  PerThreadSharedStackSize :: "64 word"
  PerThreadSharedStackOffset :: "64 word"
  PerThreadPrivateStackOffset :: "64 word"
  PerThreadPrivateStackSize :: "64 word"
  MsgOffsetFromSharedStack :: "64 word"
  stubSysmsgStart :: "64 word"
  Sighandler_blob_offset_export_syshandler :: "64 word"
  stubSysmsgRules :: "64 word"
  memoryFile_FD :: "nat \<Rightarrow> 64 word"
  sysmsgPerThreadMemAddr :: "sysmsgThread \<Rightarrow> 64 word"
  StackAddrToSyshandlerStack :: "64 word \<Rightarrow> 64 word"
  sysmsgThread_init :: "sysmsgThread \<Rightarrow> 64 word \<Rightarrow> 64 word \<Rightarrow> sysmsgThread"
  Msg_Init :: "Msg \<Rightarrow> Msg"
  archSpecificSysThreadInit :: "sysmsgThread \<Rightarrow> Registers \<Rightarrow> Registers"

section \<open>thread\<close>

text \<open>
  subprocess.go, lines 382-392. \<open>dumpAndPanic\<close> never returns. The format of the
  message's last line has a tab after \<open>stubStart\<close>.
\<close>

definition stubStartFormat :: string where
  "stubStartFormat = ''stubStart'' @ [CHR 0x09] @ '' = %016x\<newline>''"

definition dumpAndPanic ::
  "'o archOps_scheme \<Rightarrow> thread \<Rightarrow> message \<Rightarrow> 'z world_scheme
     \<Rightarrow> 'a exec \<times> 'z world_scheme" where
  "dumpAndPanic ops t message w =
     (let message1 = message @ [Str ''\<newline>''];
          stubLine = [Sprintf stubStartFormat [AInt (uint (stubStart ops))]]
      in bind (askRegs (GetRegs (sint (tid t))) w) (\<lambda>(regs, err) w1.
           if err = None then (Panic (message1 @ [RegDump regs] @ stubLine), w1)
           else (Panic (message1 @ stubLine),
                 emit (Log Warning [Sprintf ''unable to get registers: %v'' [AErr err]]) w1)))"

text \<open>
  subprocess.go, lines 405-417. For an exit by SIGKILL the warning is logged and
  \<open>unix.Tgkill(pid, pid, SIGKILL)\<close> is called; its result is not looked at and nothing
  ends the function there, so when the call comes back control goes on to
  \<open>dumpAndPanic\<close>, as it does for every other exit status.
\<close>

definition unexpectedStubExit ::
  "'o archOps_scheme \<Rightarrow> thread \<Rightarrow> 'z world_scheme
     \<Rightarrow> 'a exec \<times> 'z world_scheme" where
  "unexpectedStubExit ops t w =
     bind (askEventMessage (GetEventMessage (sint (tid t))) w) (\<lambda>(emsg, err) w1.
       let status = (ucast emsg :: 32 word) in
       bind (if Signaled status \<and> Signal status = SIGKILL then
               (let w2 = emit (Log Warning
                           [Sprintf ''The ptrace stub process %v has been killed by SIGKILL.''
                              [AInt (sint (tgid t))]]) w1
                in bind (askPid Getpid w2) (\<lambda>pid w3.
                     bind (askErr (TgkillCall pid pid SIGKILL) w3) (\<lambda>_ w4. (Return (), w4))))
             else (Return (), w1))
         (\<lambda>_ w5.
            dumpAndPanic ops t
              [Sprintf ''wait failed: the process %d:%d exited: %x (err %v)''
                 [AInt (sint (tgid t)), AInt (sint (tid t)), AInt (uint emsg), AErr err]] w5))"

text \<open>
  subprocess.go, lines 422-464. Each turn of the loop takes one answer of \<open>wait4\<close> from
  the script, so the recursion ends with the script.
\<close>

lemma ext_shorter: "ext q w = Some (r, w1) \<Longrightarrow> length (tape w1) < length (tape w)"
  by (auto simp: ext_def split: list.splits)

lemma askWait4_shorter: "askWait4 q w = (Return x, w1) \<Longrightarrow> length (tape w1) < length (tape w)"
  by (auto simp: askWait4_def dest: ext_shorter split: option.splits response.splits)

lemma askErrno_shorter: "askErrno q w = (Return x, w1) \<Longrightarrow> length (tape w1) < length (tape w)"
  by (auto simp: askErrno_def dest: ext_shorter split: option.splits response.splits)

lemma askErr_shorter: "askErr q w = (Return x, w1) \<Longrightarrow> length (tape w1) < length (tape w)"
  by (auto simp: askErr_def dest: ext_shorter split: option.splits response.splits)

lemma askRegs_shorter: "askRegs q w = (Return x, w1) \<Longrightarrow> length (tape w1) < length (tape w)"
  by (auto simp: askRegs_def dest: ext_shorter split: option.splits response.splits)

function wait ::
  "'o archOps_scheme \<Rightarrow> thread \<Rightarrow> waitOutcome \<Rightarrow> 'z world_scheme
     \<Rightarrow> int exec \<times> 'z world_scheme" where
  "wait ops t outcome w =
     bind (askWait4 (Wait4 (sint (tid t)) (WALL OR WUNTRACED)) w) (\<lambda>x w1.
       case x of (r, err, status) \<Rightarrow>
       if err = Some EINTR \<or> err = Some EAGAIN then wait ops t outcome w1
       else if err \<noteq> None then
         (Panic [Sprintf ''ptrace wait failed: %v'' [AErr err]], w1)
       else if r \<noteq> sint (tid t) then
         (Panic [Sprintf ''ptrace wait returned %v, expected %v'' [AInt r, AInt (sint (tid t))]], w1)
       else
         (case outcome of
            stopped \<Rightarrow>
              if \<not> Stopped status then
                dumpAndPanic ops t
                  [Sprintf ''ptrace status unexpected: got %v, wanted stopped'' [AInt (uint status)]] w1
              else
                (let stopSig = StopSignal status in
                 if stopSig = 0 then wait ops t outcome w1
                 else if stopSig = SIGTRAP then
                   (if TrapCause status = PTRACE_EVENT_EXIT then unexpectedStubExit ops t w1
                    else (Return (stopSig OR push_bit 8 (TrapCause status)), w1))
                 else (Return stopSig, w1))
          | killed \<Rightarrow>
              if \<not> Exited status \<and> \<not> Signaled status then
                dumpAndPanic ops t
                  [Sprintf ''ptrace status unexpected: got %v, wanted exited'' [AInt (uint status)]] w1
              else (Return (ExitStatus status), w1)
          | unknownOutcome n \<Rightarrow>
              dumpAndPanic ops t [Sprintf ''unknown outcome: %v'' [AInt n]] w1))"
  by pat_completeness auto
termination
  by (relation "measure (\<lambda>(ops, t, outcome, w). length (tape w))")
     (auto dest: askWait4_shorter)

declare wait.simps [simp del]

lemma dumpAndPanic_no_return: "dumpAndPanic ops t message w \<noteq> (Return x, w')"
  by (auto simp: dumpAndPanic_def bind_def Let_def split: prod.splits exec.splits)

lemma unexpectedStubExit_no_return: "unexpectedStubExit ops t w \<noteq> (Return x, w')"
  by (auto simp: unexpectedStubExit_def bind_def Let_def dumpAndPanic_no_return
           split: prod.splits exec.splits)


lemma bind_ReturnD:
  "bind m f = (Return y, w') \<Longrightarrow> \<exists>x w1. m = (Return x, w1) \<and> f x w1 = (Return y, w')"
  by (cases m; cases "fst m") (auto simp: bind_def)

lemma wait_shorter:
  "wait ops t outcome w = (Return sig, w') \<Longrightarrow> length (tape w') < length (tape w)"
proof (induction ops t outcome w arbitrary: sig w' rule: wait.induct)
  case (1 ops t outcome w)
  from "1.prems" obtain x w1 where
    ask: "askWait4 (Wait4 (sint (tid t)) (WALL OR WUNTRACED)) w = (Return x, w1)" and
    body: "(case x of (r, err, status) \<Rightarrow>
       if err = Some EINTR \<or> err = Some EAGAIN then wait ops t outcome w1
       else if err \<noteq> None then
         (Panic [Sprintf ''ptrace wait failed: %v'' [AErr err]], w1)
       else if r \<noteq> sint (tid t) then
         (Panic [Sprintf ''ptrace wait returned %v, expected %v'' [AInt r, AInt (sint (tid t))]], w1)
       else
         (case outcome of
            stopped \<Rightarrow>
              if \<not> Stopped status then
                dumpAndPanic ops t
                  [Sprintf ''ptrace status unexpected: got %v, wanted stopped'' [AInt (uint status)]] w1
              else
                (let stopSig = StopSignal status in
                 if stopSig = 0 then wait ops t outcome w1
                 else if stopSig = SIGTRAP then
                   (if TrapCause status = PTRACE_EVENT_EXIT then unexpectedStubExit ops t w1
                    else (Return (stopSig OR push_bit 8 (TrapCause status)), w1))
                 else (Return stopSig, w1))
          | killed \<Rightarrow>
              if \<not> Exited status \<and> \<not> Signaled status then
                dumpAndPanic ops t
                  [Sprintf ''ptrace status unexpected: got %v, wanted exited'' [AInt (uint status)]] w1
              else (Return (ExitStatus status), w1)
          | unknownOutcome n \<Rightarrow>
              dumpAndPanic ops t [Sprintf ''unknown outcome: %v'' [AInt n]] w1)) = (Return sig, w')"
    by (subst (asm) wait.simps) (blast dest: bind_ReturnD)
  obtain r err status where x: "x = (r, err, status)" by (cases x)
  have lt: "length (tape w1) < length (tape w)"
    using ask by (rule askWait4_shorter)
  have ih1: "err = Some EINTR \<or> err = Some EAGAIN \<Longrightarrow> wait ops t outcome w1 = (Return sig, w')
      \<Longrightarrow> length (tape w') < length (tape w1)"
    using "1.IH"(1)[OF ask, of r "(err, status)" err status sig w'] x by simp
  have ih2: "\<not> (err = Some EINTR \<or> err = Some EAGAIN) \<Longrightarrow> err = None \<Longrightarrow> r = sint (tid t)
      \<Longrightarrow> outcome = stopped \<Longrightarrow> Stopped status \<Longrightarrow> StopSignal status = 0
      \<Longrightarrow> wait ops t outcome w1 = (Return sig, w') \<Longrightarrow> length (tape w') < length (tape w1)"
    using "1.IH"(2)[OF ask, of r "(err, status)" err status "StopSignal status" sig w'] x by simp
  have "length (tape w') \<le> length (tape w1)"
    using body ih1 ih2 unfolding x
    by (auto simp: Let_def dumpAndPanic_no_return unexpectedStubExit_no_return
             split: if_splits waitOutcome.splits)
  with lt show ?case by simp
qed

text \<open>
  subprocess.go, lines 499-531: the loop that resumes the tracee until it stops on the
  trap after the syscall instruction.
\<close>

function syscallLoop ::
  "'o archOps_scheme \<Rightarrow> thread \<Rightarrow> 'z world_scheme
     \<Rightarrow> unit exec \<times> 'z world_scheme" where
  "syscallLoop ops t w =
     bind (askErrno (Ptrace PTRACE_CONT (sint (tid t)) 0 0) w) (\<lambda>errno w1.
       if errno \<noteq> 0 then
         (Panic [Sprintf ''ptrace syscall-enter failed: %v'' [AErr (Some (Errno errno))]], w1)
       else
         bind (wait ops t stopped w1) (\<lambda>sig w2.
           if sig = SIGTRAP then (Return (), w2)
           else if sig \<noteq> SIGSTOP \<and> sig \<noteq> SIGCHLD then
             syscallLoop ops t
               (emit (Log Warning [Sprintf ''The thread %d:%d has been interrupted by %d''
                                     [AInt (sint (tgid t)), AInt (sint (tid t)), AInt sig]]) w2)
           else syscallLoop ops t w2))"
  by pat_completeness auto
termination
  by (relation "measure (\<lambda>(ops, t, w). length (tape w))")
     (auto dest!: askErrno_shorter wait_shorter simp: emit_def)

declare syscallLoop.simps [simp del]

text \<open>subprocess.go, lines 499-531.\<close>

definition thread_syscall ::
  "'o archOps_scheme \<Rightarrow> thread \<Rightarrow> Registers \<Rightarrow> 'z world_scheme
     \<Rightarrow> (64 word \<times> error option) exec \<times> 'z world_scheme" where
  "thread_syscall ops t regs w =
     bind (askErr (SetRegs (sint (tid t)) regs) w) (\<lambda>err w1.
       if err \<noteq> None then (Panic [Sprintf ''ptrace set regs failed: %v'' [AErr err]], w1)
       else
         bind (syscallLoop ops t w1) (\<lambda>_ w2.
           bind (askRegs (GetRegs (sint (tid t))) w2) (\<lambda>(regs', err') w3.
             if err' \<noteq> None then (Panic [Sprintf ''ptrace get regs failed: %v'' [AErr err']], w3)
             else (Return (syscallReturnValue ops regs'), w3))))"

lemma syscallLoop_shorter:
  "syscallLoop ops t w = (Return x, w') \<Longrightarrow> length (tape w') < length (tape w)"
proof (induction ops t w arbitrary: x w' rule: syscallLoop.induct)
  case (1 ops t w)
  let ?warn = "\<lambda>sig. Log Warning [Sprintf ''The thread %d:%d has been interrupted by %d''
                       [AInt (sint (tgid t)), AInt (sint (tid t)), AInt sig]]"
  from "1.prems" obtain errno w1 where
    ask: "askErrno (Ptrace PTRACE_CONT (sint (tid t)) 0 0) w = (Return errno, w1)" and
    body: "(if errno \<noteq> 0 then
         (Panic [Sprintf ''ptrace syscall-enter failed: %v'' [AErr (Some (Errno errno))]], w1)
       else
         bind (wait ops t stopped w1) (\<lambda>sig w2.
           if sig = SIGTRAP then (Return (), w2)
           else if sig \<noteq> SIGSTOP \<and> sig \<noteq> SIGCHLD then
             syscallLoop ops t (emit (?warn sig) w2)
           else syscallLoop ops t w2)) = (Return x, w')"
    by (subst (asm) syscallLoop.simps) (blast dest: bind_ReturnD)
  from body have e0: "errno = 0" by (auto split: if_splits)
  with body obtain sig w2 where
    wt: "wait ops t stopped w1 = (Return sig, w2)" and
    rest: "(if sig = SIGTRAP then (Return (), w2)
           else if sig \<noteq> SIGSTOP \<and> sig \<noteq> SIGCHLD then
             syscallLoop ops t (emit (?warn sig) w2)
           else syscallLoop ops t w2) = (Return x, w')"
    by (auto dest: bind_ReturnD)
  have lt1: "length (tape w1) < length (tape w)" using ask by (rule askErrno_shorter)
  have lt2: "length (tape w2) < length (tape w1)" using wt by (rule wait_shorter)
  have ih1: "sig \<noteq> SIGTRAP \<Longrightarrow> sig \<noteq> SIGSTOP \<and> sig \<noteq> SIGCHLD \<Longrightarrow>
      syscallLoop ops t (emit (?warn sig) w2) = (Return x, w') \<Longrightarrow>
      length (tape w') < length (tape (emit (?warn sig) w2))"
    using "1.IH"(1)[OF ask _ wt] e0 by blast
  have ih2: "sig \<noteq> SIGTRAP \<Longrightarrow> \<not> (sig \<noteq> SIGSTOP \<and> sig \<noteq> SIGCHLD) \<Longrightarrow>
      syscallLoop ops t w2 = (Return x, w') \<Longrightarrow> length (tape w') < length (tape w2)"
    using "1.IH"(2)[OF ask _ wt] e0 by blast
  have "length (tape w') \<le> length (tape w2)"
    using rest ih1 ih2 by (auto simp: emit_def split: if_splits)
  with lt1 lt2 show ?case by simp
qed

lemma thread_syscall_shorter:
  "thread_syscall ops t regs w = (Return x, w') \<Longrightarrow> length (tape w') < length (tape w)"
  unfolding thread_syscall_def
  by (auto dest!: bind_ReturnD askErr_shorter syscallLoop_shorter askRegs_shorter split: if_splits)

text \<open>subprocess.go, lines 535-553.\<close>

function syscallIgnoreInterrupt ::
  "'o archOps_scheme \<Rightarrow> thread \<Rightarrow> Registers \<Rightarrow> 64 word \<Rightarrow> 64 word list
     \<Rightarrow> 'z world_scheme \<Rightarrow> (64 word \<times> error option) exec \<times> 'z world_scheme" where
  "syscallIgnoreInterrupt ops t iregs sysno args w =
     (let regs = createSyscallRegs ops iregs sysno args in
      bind (thread_syscall ops t regs w) (\<lambda>x w1.
        case x of (rval, err) \<Rightarrow>
          if err = Some ERESTARTSYS then syscallIgnoreInterrupt ops t iregs sysno args w1
          else if err = Some ERESTARTNOINTR then syscallIgnoreInterrupt ops t iregs sysno args w1
          else if err = Some ERESTARTNOHAND then syscallIgnoreInterrupt ops t iregs sysno args w1
          else (Return (rval, err), w1)))"
  by pat_completeness auto
termination
  by (relation "measure (\<lambda>(ops, t, iregs, sysno, args, w). length (tape w))")
     (auto dest: thread_syscall_shorter)

declare syscallIgnoreInterrupt.simps [simp del]

text \<open>subprocess.go, lines 478-492.\<close>

definition thread_init :: "thread \<Rightarrow> 'z world_scheme \<Rightarrow> unit exec \<times> 'z world_scheme" where
  "thread_init t w =
     bind (askErrno (Ptrace PTRACE_SETOPTIONS (sint (tid t)) 0
                       (PTRACE_O_TRACESYSGOOD OR PTRACE_O_TRACEEXIT OR PTRACE_O_EXITKILL)) w)
       (\<lambda>errno w1.
          if errno \<noteq> 0 then
            (Panic [Sprintf ''ptrace set options failed: %v'' [AErr (Some (Errno errno))]], w1)
          else (Return (), w1))"

text \<open>subprocess.go, lines 327-342.\<close>

definition attach ::
  "'o archOps_scheme \<Rightarrow> thread \<Rightarrow> 'z world_scheme \<Rightarrow> unit exec \<times> 'z world_scheme" where
  "attach ops t w =
     bind (askErrno (Ptrace PTRACE_ATTACH (sint (tid t)) 0 0) w) (\<lambda>errno w1.
       if errno \<noteq> 0 then
         (Panic [Sprintf ''unable to attach: %v'' [AErr (Some (Errno errno))]], w1)
       else
         bind (wait ops t stopped w1) (\<lambda>sig w2.
           if sig \<noteq> SIGSTOP then
             (Panic [Sprintf ''wait failed: expected SIGSTOP, got %v'' [AInt sig]], w2)
           else thread_init t w2))"

section \<open>Stub threads and the switch to the application\<close>

definition SYS_PRCTL :: "64 word" where "SYS_PRCTL = 157"
definition SYS_SECCOMP :: "64 word" where "SYS_SECCOMP = 317"
definition PR_SET_NO_NEW_PRIVS :: "64 word" where "PR_SET_NO_NEW_PRIVS = 38"
definition SECCOMP_SET_MODE_FILTER :: "64 word" where "SECCOMP_SET_MODE_FILTER = 1"
definition PROT_READ :: "64 word" where "PROT_READ = 1"
definition PROT_WRITE :: "64 word" where "PROT_WRITE = 2"
definition MAP_SHARED :: "64 word" where "MAP_SHARED = 1"
definition MAP_FILE :: "64 word" where "MAP_FILE = 0"

text \<open>Writing through the pointers \<open>switchToApp\<close> and \<open>getSysmsgThread\<close> hold.\<close>

definition storeRegs :: "archContextRef \<Rightarrow> Registers \<Rightarrow> sentry \<Rightarrow> sentry" where
  "storeRegs ac regs st = st\<lparr>acs := (acs st)(ac := (acs st ac)\<lparr>StateData_Regs := regs\<rparr>)\<rparr>"

definition storeArch :: "archContextRef \<Rightarrow> Context64 \<Rightarrow> sentry \<Rightarrow> sentry" where
  "storeArch ac a st = st\<lparr>acs := (acs st)(ac := a)\<rparr>"

definition storeSysThread :: "contextRef \<Rightarrow> sysmsgThread \<Rightarrow> sentry \<Rightarrow> sentry" where
  "storeSysThread c sy st = st\<lparr>ctxs := (ctxs st)(c := (ctxs st c)\<lparr>ctx_sysmsgThread := Some sy\<rparr>)\<rparr>"

definition storeSignalInfo :: "contextRef \<Rightarrow> SignalInfo \<Rightarrow> sentry \<Rightarrow> sentry" where
  "storeSignalInfo c si st = st\<lparr>ctxs := (ctxs st)(c := (ctxs st c)\<lparr>signalInfo := si\<rparr>)\<rparr>"

definition storeInterrupt :: "contextRef \<Rightarrow> Forwarder \<Rightarrow> sentry \<Rightarrow> sentry" where
  "storeInterrupt c fw st = st\<lparr>ctxs := (ctxs st)(c := (ctxs st c)\<lparr>interrupt := fw\<rparr>)\<rparr>"

text \<open>
  Modelled from the spec: \<open>sysmsgThread.waitEvent\<close> is not in subprocess.go. Section
  4.4, step 4: block until the message transitions to the awaited state. The message
  is memory shared with the stub: what it holds when the wait ends is the
  environment's answer, and an answer in another state leaves the call waiting.
\<close>

definition waitEvent ::
  "sysmsgThread \<Rightarrow> ThreadState \<Rightarrow> 'z world_scheme \<Rightarrow> sysmsgThread exec \<times> 'z world_scheme" where
  "waitEvent sy want w =
     (case msg sy of
        None \<Rightarrow> (Panic [Str ''nil pointer dereference''], w)
      | Some m \<Rightarrow>
          bind (askMsg (WaitEvent (sint (tid (sysThread_thread sy))) want m) w) (\<lambda>m' w1.
            if State m' = want then (Return (sy\<lparr>msg := Some m'\<rparr>), w1) else (Blocked, w1)))"

text \<open>
  subprocess.go, lines 698-815: a new stub thread, up to the moment it is resumed.
  The message behind \<open>StackAddrToMsg(sentryStackAddr)\<close> is the memory just mapped:
  its content is the environment's.
\<close>

definition newSysmsgThread ::
  "'o sysmsgOps_scheme \<Rightarrow> subprocessRef \<Rightarrow> archContextRef \<Rightarrow> sentry \<Rightarrow> sysmsgThread exec \<times> sentry" where
  "newSysmsgThread ops s ac st0 =
     bind (askThread (RequestThread s) st0) (\<lambda>p st.
     bind (attach ops p st) (\<lambda>_ st.
     bind (askErrno (Ptrace PTRACE_CONT (sint (tid p)) 0 0) st) (\<lambda>errno st.
       if errno \<noteq> 0 then
         (Panic [Sprintf ''ptrace cont failed: %v'' [AErr (Some (Errno errno))]], st)
       else
     bind (wait ops p stopped st) (\<lambda>sig st.
       if sig \<noteq> SIGSTOP then
         (Panic [Sprintf ''error waiting for new clone: expected SIGSTOP, got %v'' [AInt sig]], st)
       else
     bind (askAllocate (Allocate (memoryFile (subprocs st s)) (PerThreadSharedStackSize ops)) st)
       (\<lambda>(fr, err) st.
       if err \<noteq> None then
         (Panic [Sprintf ''failed to allocate a new stack: %v'' [AErr err]], st)
       else
       let sysThread = \<lparr>sysThread_thread = p, subproc = s, stackRange = fr, msg = None,
                        fpuStateToMsgOffset = 0\<rparr> in
     bind (askMmap (Mmap [0, PerThreadSharedStackSize ops, PROT_WRITE OR PROT_READ,
                          MAP_SHARED OR MAP_FILE, memoryFile_FD ops (memoryFile (subprocs st s)),
                          frStart fr]) st)
       (\<lambda>(sentryStackAddr, errno) st.
       if errno \<noteq> 0 then
         (Panic [Sprintf ''mmap failed: %v'' [AErr (Some (Errno errno))]], st)
       else
       let sysmsgStackAddr = sysmsgPerThreadMemAddr ops sysThread + PerThreadSharedStackOffset ops in
     bind (askErr (MapStack (sint (tid p)) sysmsgStackAddr True) st) (\<lambda>err st.
       if err \<noteq> None then (Panic [Sprintf ''mmap failed: %v'' [AErr err]], st)
       else
       let sysThread = sysmsgThread_init ops sysThread sentryStackAddr sysmsgStackAddr in
     bind (askErr (MapStack (sint (tid p)) sysmsgStackAddr False) st) (\<lambda>err st.
       if err \<noteq> None then
         (Panic [Sprintf ''mmap failed: %v'' [AErr err]],
          emit (DecRef (memoryFile (subprocs st s)) fr) st)
       else
       let privateStackAddr = sysmsgPerThreadMemAddr ops sysThread + PerThreadPrivateStackOffset ops in
     bind (askErr (MapPrivateStack (sint (tid p)) privateStackAddr (PerThreadPrivateStackSize ops)) st)
       (\<lambda>err st.
       if err \<noteq> None then
         (Panic [Sprintf ''mmap failed: %v'' [AErr err]],
          emit (DecRef (memoryFile (subprocs st s)) fr) st)
       else
     bind (askMsg (LoadMsg sentryStackAddr) st) (\<lambda>m0 st.
       let m = (Msg_Init ops m0)
                 \<lparr>Self := sysmsgStackAddr + MsgOffsetFromSharedStack ops,
                  Syshandler := stubSysmsgStart ops + Sighandler_blob_offset_export_syshandler ops,
                  SyshandlerStack := StackAddrToSyshandlerStack ops (sysmsgPerThreadMemAddr ops sysThread),
                  State := StateDone\<rparr>;
           sysThread = sysThread\<lparr>msg := Some m\<rparr> in
     bind (syscallIgnoreInterrupt ops p (initRegs p) SYS_PRCTL [PR_SET_NO_NEW_PRIVS, 1, 0] st)
       (\<lambda>(_, err) st.
       if err \<noteq> None then
         (Panic [Sprintf ''prctl(PR_SET_NO_NEW_PRIVS) failed: %v'' [AErr err]], st)
       else
     bind (syscallIgnoreInterrupt ops p (initRegs p) SYS_SECCOMP
             [SECCOMP_SET_MODE_FILTER, 0, stubSysmsgRules ops] st)
       (\<lambda>(_, err) st.
       if err \<noteq> None then (Panic [Sprintf ''seccomp failed: %v'' [AErr err]], st)
       else
       let tregs = archSpecificSysThreadInit ops sysThread
                     (resetSysemuRegs ops p (StateData_Regs (acs st ac)));
           st = storeRegs ac tregs st in
     bind (askErr (SetRegs (sint (tid p)) tregs) st) (\<lambda>err st.
       if err \<noteq> None then (Panic [Sprintf ''ptrace set regs failed: %v'' [AErr err]], st)
       else
     bind (askErrno (TgkillCall (sint (tgid p)) (sint (tid p)) SIGSEGV) st) (\<lambda>e st.
       if e \<noteq> 0 then (Panic [Sprintf ''tkill failed: %v'' [AErr (Some (Errno e))]], st)
       else
     bind (askErrno (TgkillCall (sint (tgid p)) (sint (tid p)) SIGCONT) st) (\<lambda>e st.
       if e \<noteq> 0 then (Panic [Sprintf ''tkill failed: %v'' [AErr (Some (Errno e))]], st)
       else
     bind (askErrno (Ptrace PTRACE_DETACH (sint (tid p)) 0 0) st) (\<lambda>errno st.
       if errno \<noteq> 0 then
         (Panic [Sprintf ''can't detach new clone: %v'' [AErr (Some (Errno errno))]], st)
       else (Return sysThread, st)))))))))))))))))"

text \<open>
  subprocess.go, lines 817-830: wait for the resumed stub, refuse an error code in the
  message, learn the FPU-state offset, bind the thread to the context.
\<close>

definition startSysmsgThread ::
  "'o sysmsgOps_scheme \<Rightarrow> contextRef \<Rightarrow> sysmsgThread \<Rightarrow> sentry
     \<Rightarrow> (error + sysmsgThread) exec \<times> sentry" where
  "startSysmsgThread ops c sysThread0 st0 =
     bind (waitEvent sysThread0 StateNone st0) (\<lambda>sysThread st.
       case msg sysThread of
         None \<Rightarrow> (Panic [Str ''nil pointer dereference''], st)
       | Some m \<Rightarrow>
           if Err m \<noteq> 0 then
             (Panic [Sprintf ''stub thread failed: %v (line %v)''
                       [AInt (sint (Err m)), AInt (sint (Line m))]], st)
           else
             (case FPUStateOffset ops m of
                (off, Some err) \<Rightarrow>
                  (Return (Inl err), emit (Destroy (sint (tid (sysThread_thread sysThread)))) st)
              | (off, None) \<Rightarrow>
                  (let sysThread = sysThread\<lparr>fpuStateToMsgOffset := off\<rparr>
                   in (Return (Inr sysThread), storeSysThread c sysThread st))))"

text \<open>subprocess.go, lines 686-831.\<close>

definition getSysmsgThread ::
  "'o sysmsgOps_scheme \<Rightarrow> subprocessRef \<Rightarrow> archContextRef \<Rightarrow> contextRef \<Rightarrow> sentry
     \<Rightarrow> (error + sysmsgThread) exec \<times> sentry" where
  "getSysmsgThread ops s ac c st =
     (case ctx_sysmsgThread (ctxs st c) of
        Some sysThread \<Rightarrow>
          if subproc sysThread \<noteq> s then
            bind (newSysmsgThread ops s ac
                    (emit (Destroy (sint (tid (sysThread_thread sysThread)))) st))
              (startSysmsgThread ops c)
          else (Return (Inr sysThread), st)
      | None \<Rightarrow> bind (newSysmsgThread ops s ac st) (startSysmsgThread ops c))"

text \<open>
  subprocess.go, lines 586-627: the part of \<open>switchToApp\<close> that runs with interrupts
  enabled for the stub thread.
\<close>

definition roundTrip ::
  "'o sysmsgOps_scheme \<Rightarrow> contextRef \<Rightarrow> archContextRef \<Rightarrow> sysmsgThread \<Rightarrow> Msg \<Rightarrow> sentry
     \<Rightarrow> (bool \<times> bool \<times> error option) exec \<times> sentry" where
  "roundTrip ops c ac sysThread0 msg0 st0 =
     (let t = sysThread_thread sysThread0;
          (a1, m1) = restoreArchSpecificState ops sysThread0 msg0 (acs st0 ac);
          st1 = storeArch ac a1 st0;
          m2 = m1\<lparr>Regs := PtraceRegs (StateData_Regs (acs st1 ac))\<rparr>;
          m3 = EnableSentryFastPath ops m2;
          sysThread1 = sysThread0\<lparr>msg := Some m3\<rparr>;
          st2 = storeSysThread c sysThread1 st1
      in bind (waitEvent sysThread1 StateDone st2) (\<lambda>sysThread2 st3.
           case msg sysThread2 of
             None \<Rightarrow> (Panic [Str ''nil pointer dereference''], st3)
           | Some m \<Rightarrow>
               (let (off, err) = (if Type m \<noteq> EventTypeSyscallTrap then FPUStateOffset ops m
                                  else (0, None));
                    sysThread3 = sysThread2\<lparr>fpuStateToMsgOffset := off\<rparr>;
                    st4 = storeSysThread c sysThread3 st3
                in if err \<noteq> None then (Return (False, False, err), st4)
                   else if Err m \<noteq> 0 then
                     (Panic [Sprintf ''stub thread %d failed: err %d line %d: %s''
                               [AInt (sint (tid t)), AInt (sint (Err m)), AInt (sint (Line m)),
                                AMsg m]], st4)
                   else
                     (let st5 = storeRegs ac ((StateData_Regs (acs st4 ac))\<lparr>PtraceRegs := Regs m\<rparr>) st4;
                          st6 = storeArch ac (retrieveArchSpecificState ops m t (acs st5 ac)) st5;
                          st7 = storeSignalInfo c (MsgSignalInfo m) st6;
                          shouldPatchSyscall = (Type m = EventTypeSyscallCanBePatched);
                          m' = (if Type m = EventTypeSyscallCanBePatched
                                then m\<lparr>Type := EventTypeSyscall\<rparr> else m);
                          st8 = storeSysThread c (sysThread3\<lparr>msg := Some m'\<rparr>) st7
                      in if Type m' = EventTypeSyscall \<or> Type m' = EventTypeSyscallTrap then
                           (case maybePatchSignalInfo ops (StateData_Regs (acs st8 ac))
                                   (signalInfo (ctxs st8 c)) of
                              (patched, regs, si) \<Rightarrow>
                                (let st9 = storeSignalInfo c si (storeRegs ac regs st8)
                                 in if patched then (Return (False, False, None), st9)
                                    else (Return (True, shouldPatchSyscall, None),
                                          storeRegs ac (updateSyscallRegs ops regs) st9)))
                         else if Type m' \<noteq> EventTypeFault then
                           (Panic [Sprintf ''unknown message type: %v'' [AType (Type m')]], st8)
                         else (Return (False, False, None), st8)))))"

text \<open>
  subprocess.go, lines 565-628. The deferred \<open>c.interrupt.Disable()\<close> runs however the
  round trip ends.
\<close>

definition switchToApp ::
  "'o sysmsgOps_scheme \<Rightarrow> subprocessRef \<Rightarrow> contextRef \<Rightarrow> archContextRef \<Rightarrow> sentry
     \<Rightarrow> (bool \<times> bool \<times> error option) exec \<times> sentry" where
  "switchToApp ops s c ac st0 =
     bind (getSysmsgThread ops s ac c st0) (\<lambda>r st1.
       case r of
         Inl err \<Rightarrow> (Return (False, False, Some err), st1)
       | Inr sysThread \<Rightarrow>
           (case msg sysThread of
              None \<Rightarrow> (Panic [Str ''nil pointer dereference''], st1)
            | Some m \<Rightarrow>
                (let t = sysThread_thread sysThread;
                     st2 = storeRegs ac (resetSysemuRegs ops t (StateData_Regs (acs st1 ac))) st1;
                     m1 = restoreFPState ops m (fpuStateToMsgOffset sysThread) (acs st2 ac);
                     sysThread1 = sysThread\<lparr>msg := Some m1\<rparr>;
                     st3 = storeSysThread c sysThread1 st2;
                     (enabled, fw) = interruptEnable ops (interrupt (ctxs st3 c)) sysThread1;
                     st4 = storeInterrupt c fw st3
                 in if \<not> enabled then
                      (Return (False, False, None),
                       storeSignalInfo c
                         \<lparr>Signo = word_of_int (SignalInterrupt ops), Errno_si = 0, Code = 0,
                          Fields = replicate 112 0\<rparr> st4)
                    else
                      (case roundTrip ops c ac sysThread1 m1 st4 of
                         (res, st5) \<Rightarrow>
                           (res, storeInterrupt c (interruptDisable ops (interrupt (ctxs st5 c))) st5)))))"

section \<open>subprocess: the address space and the pool\<close>

definition SYS_MMAP :: "64 word" where "SYS_MMAP = 9"
definition SYS_MUNMAP :: "64 word" where "SYS_MUNMAP = 11"

text \<open>
  Modelled from the spec: \<open>hostarch.Addr.ToRange\<close> and \<open>AddrRange.Contains\<close> are not
  in subprocess.go. Section 8: \<open>Unmap([a,b))\<close> is about the addresses in \<open>[a,b)\<close>, for
  all \<open>a \<le> b\<close>; the range of \<open>addr\<close> and \<open>len\<close> ends at \<open>addr + len\<close> and
  exists when that sum does not wrap around.
\<close>

record AddrRange =
  Start :: "64 word"
  End :: "64 word"

definition ToRange :: "64 word \<Rightarrow> 64 word \<Rightarrow> AddrRange \<times> bool" where
  "ToRange addr len = (\<lparr>Start = addr, End = addr + len\<rparr>, addr \<le> addr + len)"

definition Contains :: "AddrRange \<Rightarrow> 64 word \<Rightarrow> bool" where
  "Contains r x = (Start r \<le> x \<and> x < End r)"

text \<open>
  subprocess.go, lines 662-673: the loop over the keys of \<open>s.contexts\<close>. Deleting the
  key just met does not disturb a Go \<open>range\<close> loop.
\<close>

fun forgetFaults :: "subprocessRef \<Rightarrow> AddrRange \<Rightarrow> contextRef list \<Rightarrow> sentry \<Rightarrow> sentry" where
  "forgetFaults s ar [] st = st"
| "forgetFaults s ar (c # cs) st =
     forgetFaults s ar cs
       (if lastFaultSP (ctxs st c) = Some s \<and> Contains ar (lastFaultAddr (ctxs st c)) then
          st\<lparr>ctxs := (ctxs st)(c := (ctxs st c)\<lparr>lastFaultSP := None\<rparr>),
             subprocs := (subprocs st)
               (s := (subprocs st s)\<lparr>contexts := removeAll c (contexts (subprocs st s))\<rparr>)\<rparr>
        else st)"

text \<open>
  subprocess.go, lines 656-683. \<open>s.syscall\<close> (lines 631-636) hands the call to the
  syscall thread, which is not in subprocess.go: its result is the environment's.
\<close>

definition Unmap ::
  "'o platformOps_scheme \<Rightarrow> subprocessRef \<Rightarrow> 64 word \<Rightarrow> 64 word \<Rightarrow> sentry \<Rightarrow> unit exec \<times> sentry" where
  "Unmap ops s addr len st =
     (case ToRange addr len of (ar, ok) \<Rightarrow>
        if \<not> ok then
          (Panic [Sprintf ''addr %#x + length %#x overflows'' [AInt (uint addr), AInt (uint len)]], st)
        else
          (let st1 = forgetFaults s ar (contexts (subprocs st s)) st in
           bind (askSyscall (Syscall s SYS_MUNMAP [addr, len]) st1) (\<lambda>(rval, err) st2.
             if err \<noteq> None then
               (Panic [Sprintf ''munmap(%x, %x)) failed: %v''
                         [AInt (uint addr), AInt (uint len), AErr err]], st2)
             else (Return (), st2))))"

text \<open>subprocess.go, lines 286-291.\<close>

definition unmap :: "'o platformOps_scheme \<Rightarrow> subprocessRef \<Rightarrow> sentry \<Rightarrow> unit exec \<times> sentry" where
  "unmap ops s st =
     bind (Unmap ops s 0 (stubStart ops) st) (\<lambda>_ st1.
       if maximumUserAddress ops \<noteq> stubEnd ops then
         Unmap ops s (stubEnd ops) (maximumUserAddress ops - stubEnd ops) st1
       else (Return (), st1))"

text \<open>
  Modelled from the spec: \<open>subprocessPool.release\<close> is not in subprocess.go. Section
  4.1: \<open>release(sp)\<close> returns a subprocess to the available set once idle; a subprocess
  can be released and still active from the pool's perspective until its bound-context
  count drops to zero, and only then is it moved to the available set. Nothing in
  subprocess.go sets \<open>released\<close>, so the mark is set here.
\<close>

definition subprocessPool_release :: "subprocessRef \<Rightarrow> sentry \<Rightarrow> sentry" where
  "subprocessPool_release s st =
     (let st1 = st\<lparr>subprocs := (subprocs st)(s := (subprocs st s)\<lparr>released := True\<rparr>)\<rparr> in
      if numContexts (subprocs st1 s) = 0 then
        st1\<lparr>globalPool := \<lparr>active = removeAll s (active (globalPool st1)),
                            available = available (globalPool st1) @ [s]\<rparr>\<rparr>
      else st1)"

text \<open>A call of \<open>globalPool.release(s)\<close> in subprocess.go: recorded, then carried out.\<close>

definition globalPool_release :: "subprocessRef \<Rightarrow> sentry \<Rightarrow> sentry" where
  "globalPool_release s st = subprocessPool_release s (emit (PoolRelease s) st)"

text \<open>
  subprocess.go, lines 302-307. The goroutine \<open>Release\<close> starts is run to its end.
\<close>

definition Release :: "'o platformOps_scheme \<Rightarrow> subprocessRef \<Rightarrow> sentry \<Rightarrow> unit exec \<times> sentry" where
  "Release ops s st = bind (unmap ops s st) (\<lambda>_ st1. (Return (), globalPool_release s st1))"

text \<open>
  subprocess.go, lines 848-861. \<open>numContexts\<close> is an atomic 32-bit counter:
  \<open>Add(-1)\<close> wraps around.
\<close>

definition unregisterContext :: "subprocessRef option \<Rightarrow> contextRef \<Rightarrow> sentry \<Rightarrow> sentry" where
  "unregisterContext sp c st =
     (case sp of
        None \<Rightarrow> st
      | Some s \<Rightarrow>
          (let st1 = st\<lparr>subprocs := (subprocs st)
                      (s := (subprocs st s)\<lparr>contexts := removeAll c (contexts (subprocs st s))\<rparr>)\<rparr>;
               st2 = st1\<lparr>subprocs := (subprocs st1)
                      (s := (subprocs st1 s)\<lparr>numContexts := numContexts (subprocs st1 s) - 1\<rparr>)\<rparr>;
               released' = released (subprocs st2 s)
           in if released' \<and> numContexts (subprocs st2 s) = 0 then globalPool_release s st2
              else st2))"

section \<open>The stub's dispatcher\<close>

text \<open>
  The assembly of \<open>__export_syshandler\<close> (x86-64), instruction by instruction. The
  message is reached through \<open>%gs\<close>; \<open>callq __syshandler\<close> runs the internal handler,
  a parameter of the model; both jumps go forward, to a label further down. The
  \<open>syscall\<close> instruction traps and is recorded; the fault opcode traps and ends the
  run of the dispatcher; \<open>jmp *ret_addr\<close> leaves it.
\<close>

datatype reg = RAX | RCX | RDX | RSI | RDI | R8 | R9 | R10 | R11 | RBP | RSP

datatype label = skipsyscall | skipint

datatype instr =
    Push reg
  | Pop reg
  | Callq_syshandler
  | Movq_app_stack_rsp
  | Cmpl_type EventType
  | Cmpl_interrupt "32 word"
  | Jne label
  | Je label
  | Jmp label
  | Mov_eax "32 word"
  | Nop
  | Syscall_insn
  | Movl_type EventType
  | Fault_opcode
  | Jmp_ret_addr
  | Label label

datatype stubEvent = SyscallTrap "64 word" | FaultTrap

record cpu =
  gpr :: "reg \<Rightarrow> 64 word"
  zf :: bool
  mem :: "64 word \<Rightarrow> 64 word"
  sysmsg :: Msg
  events :: "stubEvent list"

datatype ending = JumpedTo "64 word" | Faulted | FellOff

definition export_syshandler :: "instr list" where
  "export_syshandler =
     [Push RBP, Push R11, Push R10, Push R9, Push R8, Push RDI, Push RSI, Push RDX, Push RCX,
      Callq_syshandler,
      Pop RCX, Pop RDX, Pop RSI, Pop RDI, Pop R8, Pop R9, Pop R10, Pop R11, Pop RBP,
      Movq_app_stack_rsp,
      Cmpl_type EventTypeSyscall,
      Jne skipsyscall,
      Mov_eax 0xffff,
      Nop,
      Syscall_insn,
      Jmp skipint,
      Label skipsyscall,
      Cmpl_interrupt 0,
      Je skipint,
      Movl_type EventTypeInterrupt,
      Fault_opcode,
      Label skipint,
      Jmp_ret_addr]"

definition push :: "reg \<Rightarrow> cpu \<Rightarrow> cpu" where
  "push r m = m\<lparr>gpr := (gpr m)(RSP := gpr m RSP - 8),
               mem := (mem m)(gpr m RSP - 8 := gpr m r)\<rparr>"

definition pop :: "reg \<Rightarrow> cpu \<Rightarrow> cpu" where
  "pop r m = m\<lparr>gpr := (gpr m)(r := mem m (gpr m RSP), RSP := gpr m RSP + 8)\<rparr>"

fun run :: "(cpu \<Rightarrow> cpu) \<Rightarrow> label option \<Rightarrow> instr list \<Rightarrow> cpu \<Rightarrow> ending \<times> cpu" where
  "run h target [] m = (FellOff, m)"
| "run h (Some l) (Label l' # is) m = (if l' = l then run h None is m else run h (Some l) is m)"
| "run h (Some l) (i # is) m = run h (Some l) is m"
| "run h None (Push r # is) m = run h None is (push r m)"
| "run h None (Pop r # is) m = run h None is (pop r m)"
| "run h None (Callq_syshandler # is) m = run h None is (h m)"
| "run h None (Movq_app_stack_rsp # is) m =
     run h None is (m\<lparr>gpr := (gpr m)(RSP := AppStack (sysmsg m))\<rparr>)"
| "run h None (Cmpl_type ty # is) m = run h None is (m\<lparr>zf := (Type (sysmsg m) = ty)\<rparr>)"
| "run h None (Cmpl_interrupt n # is) m = run h None is (m\<lparr>zf := (Interrupt (sysmsg m) = n)\<rparr>)"
| "run h None (Jne l # is) m = (if \<not> zf m then run h (Some l) is m else run h None is m)"
| "run h None (Je l # is) m = (if zf m then run h (Some l) is m else run h None is m)"
| "run h None (Jmp l # is) m = run h (Some l) is m"
| "run h None (Mov_eax n # is) m = run h None is (m\<lparr>gpr := (gpr m)(RAX := ucast n)\<rparr>)"
| "run h None (Nop # is) m = run h None is m"
| "run h None (Syscall_insn # is) m =
     run h None is (m\<lparr>events := events m @ [SyscallTrap (gpr m RAX)]\<rparr>)"
| "run h None (Movl_type ty # is) m = run h None is (m\<lparr>sysmsg := (sysmsg m)\<lparr>Type := ty\<rparr>\<rparr>)"
| "run h None (Fault_opcode # is) m = (Faulted, m\<lparr>events := events m @ [FaultTrap]\<rparr>)"
| "run h None (Jmp_ret_addr # is) m = (JumpedTo (RetAddr (sysmsg m)), m)"
| "run h None (Label l # is) m = run h None is m"

definition saved :: "reg list" where
  "saved = [RBP, R11, R10, R9, R8, RDI, RSI, RDX, RCX]"

definition entered :: "cpu \<Rightarrow> cpu" where
  "entered m = fold push saved m"

section \<open>A concrete run: one tracee, scripted answers\<close>

text \<open>
  \<open>syscallReturnValue\<close> reads the first register as the returned value and reports
  ERESTARTSYS for 512. An interrupt that is pending is consumed by \<open>Enable\<close>, which
  then answers false. The FPU-state offset is the first of the message's other bytes
  and is corrupted when there is none. \<open>maybePatchSignalInfo\<close> patches signal 11. The thread is 7 of process 7. One cycle of
  \<open>thread.syscall\<close> that succeeds takes four answers: \<open>setRegs\<close>, PTRACE_CONT,
  \<open>wait4\<close> (stopped by SIGTRAP, status \<open>0x57f\<close>) and \<open>getRegs\<close>.
\<close>

definition exampleOps :: sysmsgOps where
  "exampleOps = \<lparr>createSyscallRegs = (\<lambda>r sysno args. r),
     syscallReturnValue = (\<lambda>r. case PtraceRegs r of
                                   [] \<Rightarrow> (0, None)
                                 | x # _ \<Rightarrow> (x, if x = 512 then Some ERESTARTSYS else None)),
     stubStart = 0x1000, stubEnd = 0x2000,
     maximumUserAddress = 0x800000000000,
     SignalInterrupt = 17,
     resetSysemuRegs = (\<lambda>t r. r),
     restoreFPState = (\<lambda>m off ac. m),
     interruptEnable = (\<lambda>f sy. if pending f then (False, f\<lparr>pending := False\<rparr>)
                                 else (True, f\<lparr>dst := Some (sysThread_thread sy)\<rparr>)),
     interruptDisable = (\<lambda>f. f\<lparr>dst := None\<rparr>),
     restoreArchSpecificState = (\<lambda>sy m ac. (ac, m)),
     EnableSentryFastPath = (\<lambda>m. m),
     FPUStateOffset = (\<lambda>m. case Extra m of
                               [] \<Rightarrow> (0, Some (ErrOther ''FPU offset has been corrupted''))
                             | b # _ \<Rightarrow> (ucast b, None)),
     retrieveArchSpecificState = (\<lambda>m t ac. ac),
     maybePatchSignalInfo = (\<lambda>r si. (Signo si = 11, r, si)),
     updateSyscallRegs = (\<lambda>r. r),
     PerThreadSharedStackSize = 0x2000,
     PerThreadSharedStackOffset = 0x1000,
     PerThreadPrivateStackOffset = 0x3000,
     PerThreadPrivateStackSize = 0x1000,
     MsgOffsetFromSharedStack = 0x800,
     stubSysmsgStart = 0x7000,
     Sighandler_blob_offset_export_syshandler = 0x40,
     stubSysmsgRules = 0x7800,
     memoryFile_FD = (\<lambda>f. 3),
     sysmsgPerThreadMemAddr = (\<lambda>sy. 0x100000 + sysmsgStackID (sysThread_thread sy) * 0x4000),
     StackAddrToSyshandlerStack = (\<lambda>a. a + 0x3800),
     sysmsgThread_init = (\<lambda>sy sentryStackAddr sysmsgStackAddr. sy),
     Msg_Init = (\<lambda>m. m\<lparr>Err := 0, Line := 0\<rparr>),
     archSpecificSysThreadInit = (\<lambda>sy r. r)\<rparr>"

definition exampleThread :: "thread" where
  "exampleThread = \<lparr>tgid = 7, tid = 7, sysmsgStackID = 0, initRegs = \<lparr>PtraceRegs = [0]\<rparr>\<rparr>"

definition cycleAnswers :: "64 word \<Rightarrow> response list" where
  "cycleAnswers n = [RetErr None, RetErrno 0, RetWait4 7 None 0x57f, RetRegs \<lparr>PtraceRegs = [n]\<rparr> None]"

definition cycleCalls :: "request list" where
  "cycleCalls = [SetRegs 7 \<lparr>PtraceRegs = [0]\<rparr>, Ptrace PTRACE_CONT 7 0 0,
                 Wait4 7 (WALL OR WUNTRACED), GetRegs 7]"

lemmas run_simps =
  wait.simps syscallLoop.simps thread_syscall_def dumpAndPanic_def unexpectedStubExit_def
  askErr_def askErrno_def askWait4_def askRegs_def askPid_def askEventMessage_def ext_def emit_def
  Stopped_def StopSignal_def TrapCause_def Exited_def Signaled_def Signal_def ExitStatus_def
  SIGTRAP_def SIGKILL_def SIGSTOP_def SIGCHLD_def PTRACE_EVENT_EXIT_def EINTR_def EAGAIN_def
  exampleOps_def exampleThread_def cycleAnswers_def cycleCalls_def

definition noSignal :: SignalInfo where
  "noSignal = \<lparr>Signo = 0, Errno_si = 0, Code = 0, Fields = replicate 112 0\<rparr>"

definition faultAt :: "subprocessRef option \<Rightarrow> 64 word \<Rightarrow> sysContext" where
  "faultAt sp addr = \<lparr>lastFaultSP = sp, lastFaultAddr = addr, signalInfo = noSignal,
     ctx_sysmsgThread = None, interrupt = \<lparr>pending = False, dst = None\<rparr>\<rparr>"

definition exampleSubprocess :: "bool \<Rightarrow> 32 word \<Rightarrow> contextRef list \<Rightarrow> subprocess" where
  "exampleSubprocess r n cs = \<lparr>released = r, numContexts = n, contexts = cs, memoryFile = 0\<rparr>"

definition idleMsg :: Msg where
  "idleMsg = \<lparr>Self = 0x101800, RetAddr = 0, Syshandler = 0x7040, SyshandlerStack = 0x103800,
     AppStack = 0, Interrupt = 0, State = StateDone, Type = EventTypeSyscall, Err = 0, Line = 0,
     Regs = [], MsgSignalInfo = noSignal, Extra = [64]\<rparr>"

text \<open>
  What the stub leaves in the message: the state, the event type, the error code, the
  signal number and the bytes the FPU-state offset is read from.
\<close>

definition event :: "ThreadState \<Rightarrow> EventType \<Rightarrow> 32 word \<Rightarrow> 32 word \<Rightarrow> 8 word list \<Rightarrow> Msg" where
  "event state ty err signo extra =
     idleMsg\<lparr>State := state, Type := ty, Err := err, Line := 33, Regs := [1, 2, 3],
             MsgSignalInfo := noSignal\<lparr>Signo := signo\<rparr>, Extra := extra\<rparr>"

definition exampleSysThread :: sysmsgThread where
  "exampleSysThread = \<lparr>sysThread_thread = exampleThread, subproc = 1,
     stackRange = \<lparr>frStart = 0, frEnd = 0x2000\<rparr>, msg = Some idleMsg, fpuStateToMsgOffset = 64\<rparr>"

definition boundContext :: "bool \<Rightarrow> sysContext" where
  "boundContext interrupted = \<lparr>lastFaultSP = None, lastFaultAddr = 0, signalInfo = noSignal,
     ctx_sysmsgThread = Some exampleSysThread, interrupt = \<lparr>pending = interrupted, dst = None\<rparr>\<rparr>"

text \<open>
  Subprocess 1 with three contexts in its fault-cache set (10 and 11 last faulted in
  it, 12 in subprocess 2), context 20 bound to a stub thread of subprocess 1, context
  21 bound likewise with an interrupt pending, every other context unbound.
\<close>

definition exampleSentry :: "response list \<Rightarrow> sentry" where
  "exampleSentry answers =
     \<lparr>trace = [], tape = answers,
      subprocs = (\<lambda>_. exampleSubprocess False 0 [])(1 := exampleSubprocess False 2 [10, 11, 12]),
      ctxs = (\<lambda>_. faultAt None 0)
               (10 := faultAt (Some 1) 0x5000, 11 := faultAt (Some 1) 0x9000,
                12 := faultAt (Some 2) 0x5000,
                20 := boundContext False, 21 := boundContext True),
      acs = (\<lambda>_. \<lparr>StateData_Regs = \<lparr>PtraceRegs = []\<rparr>, FloatingPointData = []\<rparr>),
      globalPool = \<lparr>active = [1], available = []\<rparr>\<rparr>"

definition releasedSentry :: sentry where
  "releasedSentry = snd (Release exampleOps 1 (exampleSentry [RetSyscall 0 None, RetSyscall 0 None]))"

definition creationAnswers :: "response list" where
  "creationAnswers =
     [RetThread exampleThread,
      RetErrno 0, RetWait4 7 None 0x137f, RetErrno 0,
      RetErrno 0, RetWait4 7 None 0x137f,
      RetAllocate \<lparr>frStart = 0, frEnd = 0x2000\<rparr> None,
      RetMmap 0x500000 0,
      RetErr None, RetErr None, RetErr None,
      RetMsg idleMsg]
     @ cycleAnswers 0 @ cycleAnswers 0 @
     [RetErr None, RetErrno 0, RetErrno 0, RetErrno 0]"

definition createdThread :: sysmsgThread where
  "createdThread = \<lparr>sysThread_thread = exampleThread, subproc = 1,
     stackRange = \<lparr>frStart = 0, frEnd = 0x2000\<rparr>,
     msg = Some (idleMsg\<lparr>Self := 0x101800, Syshandler := 0x7040, SyshandlerStack := 0x103800,
                         State := StateDone\<rparr>),
     fpuStateToMsgOffset = 0\<rparr>"

text \<open>
  A processor state on entry to the dispatcher, and a handler that clobbers every
  register but the stack pointer, leaves memory alone and sets the event type and the
  interrupt flag of the message.
\<close>

definition exampleCpu :: cpu where
  "exampleCpu =
     \<lparr>gpr = (\<lambda>r. case r of RAX \<Rightarrow> 0x27 | RCX \<Rightarrow> 1 | RDX \<Rightarrow> 2 | RSI \<Rightarrow> 3 | RDI \<Rightarrow> 4
                       | R8 \<Rightarrow> 5 | R9 \<Rightarrow> 6 | R10 \<Rightarrow> 7 | R11 \<Rightarrow> 8 | RBP \<Rightarrow> 9 | RSP \<Rightarrow> 0x8000),
      zf = False, mem = (\<lambda>_. 0),
      sysmsg = idleMsg\<lparr>RetAddr := 0x401000, AppStack := 0x7fff0000\<rparr>,
      events = []\<rparr>"

definition exampleHandler :: "EventType \<Rightarrow> 32 word \<Rightarrow> cpu \<Rightarrow> cpu" where
  "exampleHandler ty intr m =
     m\<lparr>gpr := (\<lambda>r. if r = RSP then gpr m RSP else 0),
       sysmsg := (sysmsg m)\<lparr>Type := ty, Interrupt := intr\<rparr>\<rparr>"

section \<open>Lemmas about the model\<close>

lemma bind_Return [simp]: "bind (Return x, w) f = f x w"
  and bind_Panic [simp]: "bind (Panic m, w) f = (Panic m, w)"
  and bind_Blocked [simp]: "bind (Blocked, w) f = (Blocked, w)"
  by (simp_all add: bind_def)

lemma bind_weak_cong [cong]: "m = m' \<Longrightarrow> bind m f = bind m' f"
  by simp

lemma syscallIgnoreInterrupt_hides_restart:
  "syscallIgnoreInterrupt ops t iregs sysno args w = (Return (rv, e), w2) \<Longrightarrow>
     e \<noteq> Some ERESTARTSYS \<and> e \<noteq> Some ERESTARTNOINTR \<and> e \<noteq> Some ERESTARTNOHAND"
proof (induction ops t iregs sysno args w rule: syscallIgnoreInterrupt.induct)
  case (1 ops t iregs sysno args w)
  from "1.prems" obtain x w1 where
    sc: "thread_syscall ops t (createSyscallRegs ops iregs sysno args) w = (Return x, w1)" and
    body: "(case x of (rval, err) \<Rightarrow>
          if err = Some ERESTARTSYS then syscallIgnoreInterrupt ops t iregs sysno args w1
          else if err = Some ERESTARTNOINTR then syscallIgnoreInterrupt ops t iregs sysno args w1
          else if err = Some ERESTARTNOHAND then syscallIgnoreInterrupt ops t iregs sysno args w1
          else (Return (rval, err), w1)) = (Return (rv, e), w2)"
    by (subst (asm) syscallIgnoreInterrupt.simps) (auto simp: Let_def dest: bind_ReturnD)
  obtain rval err where x: "x = (rval, err)" by (cases x)
  note ih = "1.IH"[OF refl sc x[symmetric]]
  show ?case
  proof (cases "err = Some ERESTARTSYS")
    case True
    with body x ih(1) show ?thesis by simp
  next
    case a: False
    show ?thesis
    proof (cases "err = Some ERESTARTNOINTR")
      case True
      with a body x ih(2) show ?thesis by simp
    next
      case b: False
      show ?thesis
      proof (cases "err = Some ERESTARTNOHAND")
        case True
        with a b body x ih(3) show ?thesis by simp
      next
        case False
        with a b body x show ?thesis by simp
      qed
    qed
  qed
qed

lemma forgetFaults_frame:
  "trace (forgetFaults s ar cs st) = trace st"
  "tape (forgetFaults s ar cs st) = tape st"
  "acs (forgetFaults s ar cs st) = acs st"
  "globalPool (forgetFaults s ar cs st) = globalPool st"
  by (induction cs arbitrary: st) auto

lemma forgetFaults_subprocs:
  "s' \<noteq> s \<Longrightarrow> subprocs (forgetFaults s ar cs st) s' = subprocs st s'"
  "released (subprocs (forgetFaults s ar cs st) s) = released (subprocs st s)"
  "numContexts (subprocs (forgetFaults s ar cs st) s) = numContexts (subprocs st s)"
  "memoryFile (subprocs (forgetFaults s ar cs st) s) = memoryFile (subprocs st s)"
  by (induction cs arbitrary: st) auto

lemma forgetFaults_ctxs:
  "ctxs (forgetFaults s ar cs st) c =
     (if c \<in> set cs \<and> lastFaultSP (ctxs st c) = Some s \<and> Contains ar (lastFaultAddr (ctxs st c))
      then (ctxs st c)\<lparr>lastFaultSP := None\<rparr> else ctxs st c)"
  by (induction cs arbitrary: st) auto

lemma forgetFaults_contexts:
  "contexts (subprocs (forgetFaults s ar cs st) s) =
     filter (\<lambda>c. \<not> (c \<in> set cs \<and> lastFaultSP (ctxs st c) = Some s
                      \<and> Contains ar (lastFaultAddr (ctxs st c))))
       (contexts (subprocs st s))"
proof (induction cs arbitrary: st)
  case Nil
  then show ?case by simp
next
  case (Cons c0 cs)
  show ?case
    by (simp add: Cons.IH removeAll_filter_not_eq) (auto intro!: filter_cong)
qed

lemma askSyscall_heap:
  "subprocs (snd (askSyscall q st)) = subprocs st"
  "ctxs (snd (askSyscall q st)) = ctxs st"
  "globalPool (snd (askSyscall q st)) = globalPool st"
  by (auto simp: askSyscall_def ext_def split: option.splits list.splits response.splits)

lemma Unmap_heap:
  assumes "addr \<le> addr + len"
  shows "ctxs (snd (Unmap ops s addr len st)) =
           ctxs (forgetFaults s \<lparr>Start = addr, End = addr + len\<rparr> (contexts (subprocs st s)) st)"
    and "subprocs (snd (Unmap ops s addr len st)) =
           subprocs (forgetFaults s \<lparr>Start = addr, End = addr + len\<rparr> (contexts (subprocs st s)) st)"
    and "globalPool (snd (Unmap ops s addr len st)) = globalPool st"
proof -
  let ?st1 = "forgetFaults s \<lparr>Start = addr, End = addr + len\<rparr> (contexts (subprocs st s)) st"
  obtain r st2 where ask: "askSyscall (Syscall s SYS_MUNMAP [addr, len]) ?st1 = (r, st2)"
    by (cases "askSyscall (Syscall s SYS_MUNMAP [addr, len]) ?st1")
  have st2: "ctxs st2 = ctxs ?st1" "subprocs st2 = subprocs ?st1" "globalPool st2 = globalPool ?st1"
    using askSyscall_heap[of "Syscall s SYS_MUNMAP [addr, len]" ?st1] ask by simp_all
  have "snd (Unmap ops s addr len st) = st2"
    using assms ask by (cases r) (auto simp: Unmap_def ToRange_def Let_def bind_def split: prod.splits)
  with st2 show "ctxs (snd (Unmap ops s addr len st)) = ctxs ?st1"
    and "subprocs (snd (Unmap ops s addr len st)) = subprocs ?st1"
    and "globalPool (snd (Unmap ops s addr len st)) = globalPool st"
    by (simp_all add: forgetFaults_frame)
qed

lemma unmap_heap:
  assumes "unmap ops s st = (Return (), st')"
  shows "released (subprocs st' s) = released (subprocs st s)"
    and "numContexts (subprocs st' s) = numContexts (subprocs st s)"
    and "globalPool st' = globalPool st"
proof -
  from assms obtain st1 where
    first: "Unmap ops s 0 (stubStart ops) st = (Return (), st1)" and
    second: "(if maximumUserAddress ops \<noteq> stubEnd ops then
         Unmap ops s (stubEnd ops) (maximumUserAddress ops - stubEnd ops) st1
       else (Return (), st1)) = (Return (), st')"
    unfolding unmap_def by (auto dest!: bind_ReturnD)
  have ok1: "(0::64 word) \<le> 0 + stubStart ops" by simp
  have s1: "subprocs st1 = subprocs (forgetFaults s \<lparr>Start = 0, End = 0 + stubStart ops\<rparr>
                                       (contexts (subprocs st s)) st)"
    and p1: "globalPool st1 = globalPool st"
    using Unmap_heap(2,3)[OF ok1, of ops s st] first by simp_all
  have keep1: "released (subprocs st1 s) = released (subprocs st s)"
      "numContexts (subprocs st1 s) = numContexts (subprocs st s)"
    by (simp_all add: s1 forgetFaults_subprocs)
  show "released (subprocs st' s) = released (subprocs st s)"
    and "numContexts (subprocs st' s) = numContexts (subprocs st s)"
    and "globalPool st' = globalPool st"
  proof (atomize (full), cases "maximumUserAddress ops \<noteq> stubEnd ops")
    case False
    with second keep1 p1 show "released (subprocs st' s) = released (subprocs st s) \<and>
      numContexts (subprocs st' s) = numContexts (subprocs st s) \<and> globalPool st' = globalPool st"
      by simp
  next
    case True
    with second have u2: "Unmap ops s (stubEnd ops) (maximumUserAddress ops - stubEnd ops) st1
        = (Return (), st')" by simp
    then have ok2: "stubEnd ops \<le> stubEnd ops + (maximumUserAddress ops - stubEnd ops)"
      by (auto simp: Unmap_def ToRange_def split: if_splits)
    from Unmap_heap(2,3)[OF ok2, of ops s st1] u2 keep1 p1
    show "released (subprocs st' s) = released (subprocs st s) \<and>
      numContexts (subprocs st' s) = numContexts (subprocs st s) \<and> globalPool st' = globalPool st"
      by (simp add: forgetFaults_subprocs)
  qed
qed

lemmas store_defs = storeRegs_def storeArch_def storeSysThread_def storeSignalInfo_def storeInterrupt_def

lemma switchToApp_round_trip:
  assumes got: "getSysmsgThread ops s ac c st0 = (Return (Inr sysThread), st1)"
    and m: "msg sysThread = Some m"
    and a0: "a0 = (acs st1 ac)\<lparr>StateData_Regs :=
                     resetSysemuRegs ops (sysThread_thread sysThread) (StateData_Regs (acs st1 ac))\<rparr>"
    and m1: "m1 = restoreFPState ops m (fpuStateToMsgOffset sysThread) a0"
    and en: "interruptEnable ops (interrupt (ctxs st1 c)) (sysThread\<lparr>msg := Some m1\<rparr>) = (True, fw)"
    and st4: "st4 = storeInterrupt c fw (storeSysThread c (sysThread\<lparr>msg := Some m1\<rparr>)
                      (storeArch ac a0 st1))"
  shows "switchToApp ops s c ac st0 =
           (case roundTrip ops c ac (sysThread\<lparr>msg := Some m1\<rparr>) m1 st4 of
              (res, st5) \<Rightarrow>
                (res, storeInterrupt c (interruptDisable ops (interrupt (ctxs st5 c))) st5))"
  using en[unfolded m1 a0]
  by (simp add: switchToApp_def got m a0 m1 st4 store_defs Let_def)

lemma run_prologue:
  "run h None export_syshandler m = run h None (drop 10 export_syshandler) (h (entered m))"
  by (simp add: export_syshandler_def entered_def saved_def)

lemma entered_stack:
  "gpr (entered m) RSP = gpr m RSP - 72"
  "mem (entered m) (gpr m RSP - 8 * 1) = gpr m RBP"
  "mem (entered m) (gpr m RSP - 8 * 2) = gpr m R11"
  "mem (entered m) (gpr m RSP - 8 * 3) = gpr m R10"
  "mem (entered m) (gpr m RSP - 8 * 4) = gpr m R9"
  "mem (entered m) (gpr m RSP - 8 * 5) = gpr m R8"
  "mem (entered m) (gpr m RSP - 8 * 6) = gpr m RDI"
  "mem (entered m) (gpr m RSP - 8 * 7) = gpr m RSI"
  "mem (entered m) (gpr m RSP - 8 * 8) = gpr m RDX"
  "mem (entered m) (gpr m RSP - 8 * 9) = gpr m RCX"
  by (simp_all add: entered_def saved_def push_def)

lemma run_epilogue_outcome:
  "fst (run h None (drop 10 export_syshandler) m1) =
     (if Type (sysmsg m1) = EventTypeSyscall then JumpedTo (RetAddr (sysmsg m1))
      else if Interrupt (sysmsg m1) \<noteq> 0 then Faulted
      else JumpedTo (RetAddr (sysmsg m1)))"
  "events (snd (run h None (drop 10 export_syshandler) m1)) =
     events m1 @
     (if Type (sysmsg m1) = EventTypeSyscall then [SyscallTrap 0xffff]
      else if Interrupt (sysmsg m1) \<noteq> 0 then [FaultTrap]
      else [])"
  "sysmsg (snd (run h None (drop 10 export_syshandler) m1)) =
     (if Type (sysmsg m1) \<noteq> EventTypeSyscall \<and> Interrupt (sysmsg m1) \<noteq> 0
      then (sysmsg m1)\<lparr>Type := EventTypeInterrupt\<rparr>
      else sysmsg m1)"
  "gpr (snd (run h None (drop 10 export_syshandler) m1)) RSP = AppStack (sysmsg m1)"
  by (simp_all add: export_syshandler_def pop_def)

lemma run_epilogue_restores:
  assumes "gpr m1 RSP = sp - 72"
  shows "gpr (snd (run h None (drop 10 export_syshandler) m1)) RBP = mem m1 (sp - 8 * 1)"
    and "gpr (snd (run h None (drop 10 export_syshandler) m1)) R11 = mem m1 (sp - 8 * 2)"
    and "gpr (snd (run h None (drop 10 export_syshandler) m1)) R10 = mem m1 (sp - 8 * 3)"
    and "gpr (snd (run h None (drop 10 export_syshandler) m1)) R9 = mem m1 (sp - 8 * 4)"
    and "gpr (snd (run h None (drop 10 export_syshandler) m1)) R8 = mem m1 (sp - 8 * 5)"
    and "gpr (snd (run h None (drop 10 export_syshandler) m1)) RDI = mem m1 (sp - 8 * 6)"
    and "gpr (snd (run h None (drop 10 export_syshandler) m1)) RSI = mem m1 (sp - 8 * 7)"
    and "gpr (snd (run h None (drop 10 export_syshandler) m1)) RDX = mem m1 (sp - 8 * 8)"
    and "gpr (snd (run h None (drop 10 export_syshandler) m1)) RCX = mem m1 (sp - 8 * 9)"
  using assms by (simp_all add: export_syshandler_def pop_def)

subsection \<open>The concrete runs, evaluated\<close>

lemma example_got:
  "getSysmsgThread exampleOps 1 0 20 (exampleSentry answers) = (Return (Inr exampleSysThread), exampleSentry answers)"
  "getSysmsgThread exampleOps 1 0 21 (exampleSentry answers) = (Return (Inr exampleSysThread), exampleSentry answers)"
  by (simp_all add: getSysmsgThread_def exampleSentry_def boundContext_def exampleSysThread_def)

lemma example_msg: "msg exampleSysThread = Some idleMsg"
  by (simp add: exampleSysThread_def)

lemma example_enable:
  "fst (interruptEnable exampleOps (interrupt (ctxs (exampleSentry answers) 20)) sy)"
  "fst (interruptEnable exampleOps (interrupt (ctxs (exampleSentry answers) 21)) sy) = False"
  by (simp_all add: exampleOps_def exampleSentry_def boundContext_def)

lemma example_tape: "tape (exampleSentry (a # answers)) = a # answers"
  by (simp add: exampleSentry_def)

lemma example_done: "State (event StateDone ty err signo extra) = StateDone"
  by (simp add: event_def)

lemmas switch_simps =
  switchToApp_def roundTrip_def getSysmsgThread_def waitEvent_def askMsg_def ext_def
  storeRegs_def storeArch_def storeSysThread_def storeSignalInfo_def storeInterrupt_def
  exampleSentry_def boundContext_def exampleSysThread_def exampleThread_def exampleOps_def
  event_def idleMsg_def noSignal_def Let_def

lemmas create_simps =
  newSysmsgThread_def startSysmsgThread_def attach_def thread_init_def syscallIgnoreInterrupt.simps
  askThread_def askAllocate_def askMmap_def storeRegs_def creationAnswers_def
  run_simps

lemma created:
  "fst (newSysmsgThread exampleOps 1 0 (exampleSentry (creationAnswers @ [a]))) = Return createdThread"
  by (simp add: create_simps askMsg_def exampleSentry_def exampleSubprocess_def createdThread_def
        idleMsg_def Let_def)

lemma created_tape:
  "tape (snd (newSysmsgThread exampleOps 1 0 (exampleSentry (creationAnswers @ [a])))) = [a]"
  by (simp add: create_simps askMsg_def exampleSentry_def exampleSubprocess_def createdThread_def
        idleMsg_def Let_def)

section \<open>The claims\<close>

text \<open>
  C1. \<open>unregisterContext(c)\<close> on a subprocess removes \<open>c\<close> from the bound set,
  takes one from \<open>numContexts\<close>, and calls \<open>globalPool.release\<close> exactly when
  \<open>released\<close> is set and the count has come to zero; with the pool of the spec that is
  exactly when the subprocess enters the available set. \<open>Release\<close> marks the
  subprocess released; while contexts remain (\<open>numContexts\<close> not zero) it stays out of
  the available set, until the \<open>unregisterContext\<close> that brings the count to zero.
\<close>

theorem unregisterContext_returns_to_pool:
  "contexts (subprocs (unregisterContext (Some s) c st) s) = removeAll c (contexts (subprocs st s)) \<and>
   numContexts (subprocs (unregisterContext (Some s) c st) s) = numContexts (subprocs st s) - 1 \<and>
   trace (unregisterContext (Some s) c st) =
     trace st @ (if released (subprocs st s) \<and> numContexts (subprocs st s) - 1 = 0
                 then [PoolRelease s] else []) \<and>
   (s \<in> set (available (globalPool (unregisterContext (Some s) c st))) \<longleftrightarrow>
      s \<in> set (available (globalPool st)) \<or>
      (released (subprocs st s) \<and> numContexts (subprocs st s) - 1 = 0)) \<and>
   (\<forall>st'. Release ops s st = (Return (), st') \<longrightarrow>
      released (subprocs st' s) \<and>
      numContexts (subprocs st' s) = numContexts (subprocs st s) \<and>
      (s \<in> set (available (globalPool st')) \<longleftrightarrow>
         s \<in> set (available (globalPool st)) \<or> numContexts (subprocs st s) = 0))"
proof (intro conjI allI impI)
  fix st'
  assume "Release ops s st = (Return (), st')"
  then obtain st1 where um: "unmap ops s st = (Return (), st1)"
    and st': "st' = globalPool_release s st1"
    unfolding Release_def by (auto dest!: bind_ReturnD)
  note keep = unmap_heap[OF um]
  show "released (subprocs st' s)"
    by (simp add: st' globalPool_release_def subprocessPool_release_def emit_def Let_def)
  show "numContexts (subprocs st' s) = numContexts (subprocs st s)"
    by (simp add: st' keep globalPool_release_def subprocessPool_release_def emit_def Let_def)
  show "s \<in> set (available (globalPool st')) \<longleftrightarrow>
         s \<in> set (available (globalPool st)) \<or> numContexts (subprocs st s) = 0"
    by (simp add: st' keep globalPool_release_def subprocessPool_release_def emit_def Let_def)
qed (auto simp: unregisterContext_def globalPool_release_def subprocessPool_release_def
       emit_def Let_def)

theorem unregisterContext_returns_to_pool_witness:
  "fst (Release exampleOps 1 (exampleSentry [RetSyscall 0 None, RetSyscall 0 None])) = Return () \<and>
   released (subprocs releasedSentry 1) \<and>
   numContexts (subprocs releasedSentry 1) = 2 \<and>
   1 \<notin> set (available (globalPool releasedSentry)) \<and>
   1 \<notin> set (available (globalPool (unregisterContext (Some 1) 10 releasedSentry))) \<and>
   trace (unregisterContext (Some 1) 10 releasedSentry) = trace releasedSentry \<and>
   1 \<in> set (available (globalPool
          (unregisterContext (Some 1) 11 (unregisterContext (Some 1) 10 releasedSentry)))) \<and>
   trace (unregisterContext (Some 1) 11 (unregisterContext (Some 1) 10 releasedSentry))
     = trace releasedSentry @ [PoolRelease 1]"
proof -
  let ?st0 = "exampleSentry [RetSyscall 0 None, RetSyscall 0 None]"
  have run: "Release exampleOps 1 ?st0 = (Return (), releasedSentry)"
    unfolding releasedSentry_def
    by (simp add: Release_def unmap_def Unmap_def ToRange_def askSyscall_def ext_def
          forgetFaults_frame exampleSentry_def exampleOps_def)
  have before: "numContexts (subprocs ?st0 1) = 2" "1 \<notin> set (available (globalPool ?st0))"
    by (simp_all add: exampleSentry_def exampleSubprocess_def)
  note rel = unregisterContext_returns_to_pool
    [of 1 10 ?st0 exampleOps, THEN conjunct2, THEN conjunct2, THEN conjunct2, THEN conjunct2,
     rule_format, OF run]
  from rel before have r1: "released (subprocs releasedSentry 1)"
    and n1: "numContexts (subprocs releasedSentry 1) = 2"
    and a1: "1 \<notin> set (available (globalPool releasedSentry))"
    by simp_all
  note first = unregisterContext_returns_to_pool [of 1 10 releasedSentry exampleOps]
  from first r1 n1 a1
  have n2: "numContexts (subprocs (unregisterContext (Some 1) 10 releasedSentry) 1) = 1"
    and a2: "1 \<notin> set (available (globalPool (unregisterContext (Some 1) 10 releasedSentry)))"
    and t2: "trace (unregisterContext (Some 1) 10 releasedSentry) = trace releasedSentry"
    by simp_all
  have r2: "released (subprocs (unregisterContext (Some 1) 10 releasedSentry) 1)"
    using r1 n1 by (simp add: unregisterContext_def Let_def)
  note second = unregisterContext_returns_to_pool
    [of 1 11 "unregisterContext (Some 1) 10 releasedSentry" exampleOps]
  from second r2 n2 a2 t2
  have a3: "1 \<in> set (available (globalPool
          (unregisterContext (Some 1) 11 (unregisterContext (Some 1) 10 releasedSentry))))"
    and t3: "trace (unregisterContext (Some 1) 11 (unregisterContext (Some 1) 10 releasedSentry))
     = trace releasedSentry @ [PoolRelease 1]"
    by simp_all
  from run r1 n1 a1 a2 t2 a3 t3 show ?thesis by simp
qed

text \<open>
  C2. When \<open>addr + len\<close> does not wrap around, \<open>Unmap(addr, len)\<close> leaves every
  context that is bound to the subprocess, has it as \<open>lastFaultSP\<close> and has its
  \<open>lastFaultAddr\<close> in \<open>[addr, addr + len)\<close> with \<open>lastFaultSP\<close> nil and out of the
  bound set; a context whose cached address is outside the range is left as it was,
  bound or not as before. This is the state \<open>Unmap\<close> leaves however the injected
  \<open>munmap\<close> ends.
\<close>

theorem Unmap_forgets_faults_in_range:
  assumes "addr \<le> addr + len"
  shows
    "(c \<in> set (contexts (subprocs st s)) \<and> lastFaultSP (ctxs st c) = Some s \<and>
      addr \<le> lastFaultAddr (ctxs st c) \<and> lastFaultAddr (ctxs st c) < addr + len \<longrightarrow>
        lastFaultSP (ctxs (snd (Unmap ops s addr len st)) c) = None \<and>
        c \<notin> set (contexts (subprocs (snd (Unmap ops s addr len st)) s))) \<and>
     (\<not> (addr \<le> lastFaultAddr (ctxs st c) \<and> lastFaultAddr (ctxs st c) < addr + len) \<longrightarrow>
        ctxs (snd (Unmap ops s addr len st)) c = ctxs st c \<and>
        (c \<in> set (contexts (subprocs (snd (Unmap ops s addr len st)) s))
           \<longleftrightarrow> c \<in> set (contexts (subprocs st s))))"
  by (auto simp: Unmap_heap[OF assms] forgetFaults_ctxs forgetFaults_contexts Contains_def)

theorem Unmap_forgets_faults_in_range_witness:
  "(0x4000 :: 64 word) \<le> 0x4000 + 0x2000 \<and>
   lastFaultSP (ctxs (snd (Unmap exampleOps 1 0x4000 0x2000 (exampleSentry [RetSyscall 0 None]))) 10) = None \<and>
   10 \<notin> set (contexts (subprocs (snd (Unmap exampleOps 1 0x4000 0x2000 (exampleSentry [RetSyscall 0 None]))) 1)) \<and>
   ctxs (snd (Unmap exampleOps 1 0x4000 0x2000 (exampleSentry [RetSyscall 0 None]))) 11
     = faultAt (Some 1) 0x9000 \<and>
   11 \<in> set (contexts (subprocs (snd (Unmap exampleOps 1 0x4000 0x2000 (exampleSentry [RetSyscall 0 None]))) 1))"
proof -
  have ok: "(0x4000 :: 64 word) \<le> 0x4000 + 0x2000" by simp
  note inside = Unmap_forgets_faults_in_range
    [OF ok, of 10 "exampleSentry [RetSyscall 0 None]" 1 exampleOps, THEN conjunct1]
  note outside = Unmap_forgets_faults_in_range
    [OF ok, of 11 "exampleSentry [RetSyscall 0 None]" 1 exampleOps, THEN conjunct2]
  have in10: "10 \<in> set (contexts (subprocs (exampleSentry [RetSyscall 0 None]) 1)) \<and>
      lastFaultSP (ctxs (exampleSentry [RetSyscall 0 None]) 10) = Some 1 \<and>
      0x4000 \<le> lastFaultAddr (ctxs (exampleSentry [RetSyscall 0 None]) 10) \<and>
      lastFaultAddr (ctxs (exampleSentry [RetSyscall 0 None]) 10) < 0x4000 + 0x2000"
    by (simp add: exampleSentry_def exampleSubprocess_def faultAt_def)
  have out11: "\<not> (0x4000 \<le> lastFaultAddr (ctxs (exampleSentry [RetSyscall 0 None]) 11) \<and>
      lastFaultAddr (ctxs (exampleSentry [RetSyscall 0 None]) 11) < 0x4000 + 0x2000)"
    by (simp add: exampleSentry_def faultAt_def)
  have b11: "11 \<in> set (contexts (subprocs (exampleSentry [RetSyscall 0 None]) 1))"
       "ctxs (exampleSentry [RetSyscall 0 None]) 11 = faultAt (Some 1) 0x9000"
    by (simp_all add: exampleSentry_def exampleSubprocess_def)
  from inside[rule_format, OF in10] outside[rule_format, OF out11] ok b11
  show ?thesis by simp
qed

text \<open>
  C3. \<open>syscallIgnoreInterrupt\<close> runs one cycle (\<open>createSyscallRegs\<close>, then
  \<open>thread.syscall\<close>: set the registers, resume the tracee up to its trap, read the
  registers back). When that cycle returns one of ERESTARTSYS (512), ERESTARTNOINTR
  (513), ERESTARTNOHAND (514) the call starts over, from the state the cycle left, with
  the same arguments; every other (value, error) pair is the result, unchanged. So
  no result of \<open>syscallIgnoreInterrupt\<close> carries a restart code.
\<close>

theorem syscallIgnoreInterrupt_restart:
  "ERESTARTSYS = Errno 512 \<and> ERESTARTNOINTR = Errno 513 \<and> ERESTARTNOHAND = Errno 514 \<and>
   (\<forall>rval err w1.
      thread_syscall ops t (createSyscallRegs ops iregs sysno args) w = (Return (rval, err), w1) \<longrightarrow>
      (if err \<in> {Some ERESTARTSYS, Some ERESTARTNOINTR, Some ERESTARTNOHAND}
       then syscallIgnoreInterrupt ops t iregs sysno args w
            = syscallIgnoreInterrupt ops t iregs sysno args w1
       else syscallIgnoreInterrupt ops t iregs sysno args w = (Return (rval, err), w1))) \<and>
   (\<forall>rv e w2.
      syscallIgnoreInterrupt ops t iregs sysno args w = (Return (rv, e), w2) \<longrightarrow>
      e \<notin> {Some ERESTARTSYS, Some ERESTARTNOINTR, Some ERESTARTNOHAND})"
proof (intro conjI allI impI)
  fix rval err w1
  assume "thread_syscall ops t (createSyscallRegs ops iregs sysno args) w = (Return (rval, err), w1)"
  then show "if err \<in> {Some ERESTARTSYS, Some ERESTARTNOINTR, Some ERESTARTNOHAND}
       then syscallIgnoreInterrupt ops t iregs sysno args w
            = syscallIgnoreInterrupt ops t iregs sysno args w1
       else syscallIgnoreInterrupt ops t iregs sysno args w = (Return (rval, err), w1)"
    by (subst syscallIgnoreInterrupt.simps, subst (3) syscallIgnoreInterrupt.simps)
       (simp add: Let_def)
next
  fix rv e w2
  assume "syscallIgnoreInterrupt ops t iregs sysno args w = (Return (rv, e), w2)"
  from syscallIgnoreInterrupt_hides_restart[OF this]
  show "e \<notin> {Some ERESTARTSYS, Some ERESTARTNOINTR, Some ERESTARTNOHAND}" by simp
qed (simp_all add: ERESTARTSYS_def ERESTARTNOINTR_def ERESTARTNOHAND_def)

theorem syscallIgnoreInterrupt_restart_witness:
  "thread_syscall exampleOps exampleThread
       (createSyscallRegs exampleOps \<lparr>PtraceRegs = [0]\<rparr> 9 [])
       \<lparr>trace = [], tape = cycleAnswers 512 @ cycleAnswers 3\<rparr>
     = (Return (512, Some ERESTARTSYS), \<lparr>trace = cycleCalls, tape = cycleAnswers 3\<rparr>) \<and>
   syscallIgnoreInterrupt exampleOps exampleThread \<lparr>PtraceRegs = [0]\<rparr> 9 []
       \<lparr>trace = [], tape = cycleAnswers 512 @ cycleAnswers 3\<rparr>
     = syscallIgnoreInterrupt exampleOps exampleThread \<lparr>PtraceRegs = [0]\<rparr> 9 []
         \<lparr>trace = cycleCalls, tape = cycleAnswers 3\<rparr> \<and>
   thread_syscall exampleOps exampleThread
       (createSyscallRegs exampleOps \<lparr>PtraceRegs = [0]\<rparr> 9 [])
       \<lparr>trace = cycleCalls, tape = cycleAnswers 3\<rparr>
     = (Return (3, None), \<lparr>trace = cycleCalls @ cycleCalls, tape = []\<rparr>) \<and>
   syscallIgnoreInterrupt exampleOps exampleThread \<lparr>PtraceRegs = [0]\<rparr> 9 []
       \<lparr>trace = cycleCalls, tape = cycleAnswers 3\<rparr>
     = (Return (3, None), \<lparr>trace = cycleCalls @ cycleCalls, tape = []\<rparr>)"
proof -
  have first: "thread_syscall exampleOps exampleThread
       (createSyscallRegs exampleOps \<lparr>PtraceRegs = [0]\<rparr> 9 [])
       \<lparr>trace = [], tape = cycleAnswers 512 @ cycleAnswers 3\<rparr>
     = (Return (512, Some ERESTARTSYS), \<lparr>trace = cycleCalls, tape = cycleAnswers 3\<rparr>)"
    by (simp add: run_simps)
  have second: "thread_syscall exampleOps exampleThread
       (createSyscallRegs exampleOps \<lparr>PtraceRegs = [0]\<rparr> 9 [])
       \<lparr>trace = cycleCalls, tape = cycleAnswers 3\<rparr>
     = (Return (3, None), \<lparr>trace = cycleCalls @ cycleCalls, tape = []\<rparr>)"
    by (simp add: run_simps)
  note retry = syscallIgnoreInterrupt_restart
    [of exampleOps exampleThread "\<lparr>PtraceRegs = [0]\<rparr>" 9 "[]"
        "\<lparr>trace = [], tape = cycleAnswers 512 @ cycleAnswers 3\<rparr>",
     THEN conjunct2, THEN conjunct2, THEN conjunct2, THEN conjunct1, rule_format, OF first]
  note pass = syscallIgnoreInterrupt_restart
    [of exampleOps exampleThread "\<lparr>PtraceRegs = [0]\<rparr>" 9 "[]"
        "\<lparr>trace = cycleCalls, tape = cycleAnswers 3\<rparr>",
     THEN conjunct2, THEN conjunct2, THEN conjunct2, THEN conjunct1, rule_format, OF second]
  from first second retry pass show ?thesis
    by (simp add: ERESTARTSYS_def ERESTARTNOINTR_def ERESTARTNOHAND_def)
qed

text \<open>
  C4, as amended. \<open>switchToApp\<close> has its stub thread, interrupts are enabled, the stub
  answers with a message in state Done, the FPU-state offset is read without error
  and the message carries no error code: the classification is reached. Syscall and
  SyscallTrap: \<open>maybePatchSignalInfo\<close> is applied to the delivered signal; when it
  reports a patch the call returns isSyscall false, shouldPatchSyscall false, and
  otherwise isSyscall true, shouldPatchSyscall false. SyscallCanBePatched: the type in
  the message is rewritten to Syscall and the call goes the same way, returning
  isSyscall true, shouldPatchSyscall true unless \<open>maybePatchSignalInfo\<close> reports a patch
  (then false, false). Fault: isSyscall false. Any other type: panic.
\<close>

theorem switchToApp_classifies:
  assumes got: "getSysmsgThread ops s ac c st0 = (Return (Inr sysThread), st1)"
    and m: "msg sysThread = Some m"
    and a0: "a0 = (acs st1 ac)\<lparr>StateData_Regs :=
                     resetSysemuRegs ops (sysThread_thread sysThread) (StateData_Regs (acs st1 ac))\<rparr>"
    and m1: "m1 = restoreFPState ops m (fpuStateToMsgOffset sysThread) a0"
    and en: "fst (interruptEnable ops (interrupt (ctxs st1 c)) (sysThread\<lparr>msg := Some m1\<rparr>))"
    and answer: "tape st1 = RetMsg m' # rest"
    and isDone: "State m' = StateDone"
    and fpu: "Type m' = EventTypeSyscallTrap \<or> snd (FPUStateOffset ops m') = None"
    and noerr: "Err m' = 0"
    and a1: "a1 = fst (restoreArchSpecificState ops (sysThread\<lparr>msg := Some m1\<rparr>) m1 a0)"
    and a2: "a2 = retrieveArchSpecificState ops m' (sysThread_thread sysThread)
                    (a1\<lparr>StateData_Regs := (StateData_Regs a1)\<lparr>PtraceRegs := Regs m'\<rparr>\<rparr>)"
    and patched: "patched = fst (maybePatchSignalInfo ops (StateData_Regs a2) (MsgSignalInfo m'))"
  shows "fst (switchToApp ops s c ac st0) =
           (case Type m' of
              EventTypeSyscall \<Rightarrow> Return (\<not> patched, False, None)
            | EventTypeSyscallTrap \<Rightarrow> Return (\<not> patched, False, None)
            | EventTypeSyscallCanBePatched \<Rightarrow> Return (\<not> patched, \<not> patched, None)
            | EventTypeFault \<Rightarrow> Return (False, False, None)
            | other \<Rightarrow> Panic [Sprintf ''unknown message type: %v'' [AType other]]) \<and>
         (\<exists>sy mm. ctx_sysmsgThread (ctxs (snd (switchToApp ops s c ac st0)) c) = Some sy \<and>
                   msg sy = Some mm \<and>
                   Type mm = (if Type m' = EventTypeSyscallCanBePatched then EventTypeSyscall
                              else Type m'))"
proof -
  obtain fw where e:
    "interruptEnable ops (interrupt (ctxs st1 c)) (sysThread\<lparr>msg := Some m1\<rparr>) = (True, fw)"
    using en by (cases "interruptEnable ops (interrupt (ctxs st1 c)) (sysThread\<lparr>msg := Some m1\<rparr>)") simp
  note unfold = switchToApp_round_trip[OF got m a0 m1 e refl]
  obtain off err where f: "FPUStateOffset ops m' = (off, err)"
    by (cases "FPUStateOffset ops m'")
  obtain b m2 where r: "restoreArchSpecificState ops (sysThread\<lparr>msg := Some m1\<rparr>) m1 a0 = (b, m2)"
    by (cases "restoreArchSpecificState ops (sysThread\<lparr>msg := Some m1\<rparr>) m1 a0")
  have a1': "a1 = b" using a1 r by simp
  obtain p regs si where
    mp: "maybePatchSignalInfo ops (StateData_Regs a2) (MsgSignalInfo m') = (p, regs, si)"
    by (cases "maybePatchSignalInfo ops (StateData_Regs a2) (MsgSignalInfo m')")
  have p: "patched = p" using patched mp by simp
  show ?thesis
    unfolding unfold
    using fpu noerr f r mp[unfolded a2 a1'] p
    by (cases "Type m'")
       (simp_all add: roundTrip_def waitEvent_def askMsg_def ext_def store_defs Let_def answer isDone)
qed

theorem switchToApp_classifies_witness:
  "fst (switchToApp exampleOps 1 20 0
          (exampleSentry [RetMsg (event StateDone EventTypeSyscall 0 0 [72])]))
     = Return (True, False, None) \<and>
   fst (switchToApp exampleOps 1 20 0
          (exampleSentry [RetMsg (event StateDone EventTypeSyscallTrap 0 0 [72])]))
     = Return (True, False, None) \<and>
   fst (switchToApp exampleOps 1 20 0
          (exampleSentry [RetMsg (event StateDone EventTypeSyscallCanBePatched 0 0 [72])]))
     = Return (True, True, None) \<and>
   fst (switchToApp exampleOps 1 20 0
          (exampleSentry [RetMsg (event StateDone EventTypeSyscall 0 11 [72])]))
     = Return (False, False, None) \<and>
   fst (switchToApp exampleOps 1 20 0
          (exampleSentry [RetMsg (event StateDone EventTypeFault 0 11 [72])]))
     = Return (False, False, None) \<and>
   fst (switchToApp exampleOps 1 20 0
          (exampleSentry [RetMsg (event StateDone EventTypeInterrupt 0 0 [72])]))
     = Panic [Sprintf ''unknown message type: %v'' [AType EventTypeInterrupt]] \<and>
   fst (switchToApp exampleOps 1 20 0
          (exampleSentry [RetMsg (event StateDone (EventTypeOther 9) 0 0 [72])]))
     = Panic [Sprintf ''unknown message type: %v'' [AType (EventTypeOther 9)]]"
proof -
  have f: "Type (event StateDone ty err signo [72]) = EventTypeSyscallTrap \<or>
           snd (FPUStateOffset exampleOps (event StateDone ty err signo [72])) = None" for ty err signo
    by (simp add: event_def exampleOps_def)
  have z: "Err (event StateDone ty 0 signo extra) = 0" for ty signo extra
    by (simp add: event_def)
  note c0 = switchToApp_classifies
    [OF example_got(1) example_msg refl refl example_enable(1)
        example_tape[of "RetMsg (event StateDone EventTypeSyscall 0 0 [72])" "[]"] example_done
        f[of EventTypeSyscall 0 0] z[of EventTypeSyscall 0 "[72]"] refl refl refl, THEN conjunct1]
  note c1 = switchToApp_classifies
    [OF example_got(1) example_msg refl refl example_enable(1)
        example_tape[of "RetMsg (event StateDone EventTypeSyscallTrap 0 0 [72])" "[]"] example_done
        f[of EventTypeSyscallTrap 0 0] z[of EventTypeSyscallTrap 0 "[72]"] refl refl refl, THEN conjunct1]
  note c2 = switchToApp_classifies
    [OF example_got(1) example_msg refl refl example_enable(1)
        example_tape[of "RetMsg (event StateDone EventTypeSyscallCanBePatched 0 0 [72])" "[]"] example_done
        f[of EventTypeSyscallCanBePatched 0 0] z[of EventTypeSyscallCanBePatched 0 "[72]"] refl refl refl, THEN conjunct1]
  note c3 = switchToApp_classifies
    [OF example_got(1) example_msg refl refl example_enable(1)
        example_tape[of "RetMsg (event StateDone EventTypeSyscall 0 11 [72])" "[]"] example_done
        f[of EventTypeSyscall 0 11] z[of EventTypeSyscall 11 "[72]"] refl refl refl, THEN conjunct1]
  note c4 = switchToApp_classifies
    [OF example_got(1) example_msg refl refl example_enable(1)
        example_tape[of "RetMsg (event StateDone EventTypeFault 0 11 [72])" "[]"] example_done
        f[of EventTypeFault 0 11] z[of EventTypeFault 11 "[72]"] refl refl refl, THEN conjunct1]
  note c5 = switchToApp_classifies
    [OF example_got(1) example_msg refl refl example_enable(1)
        example_tape[of "RetMsg (event StateDone EventTypeInterrupt 0 0 [72])" "[]"] example_done
        f[of EventTypeInterrupt 0 0] z[of EventTypeInterrupt 0 "[72]"] refl refl refl, THEN conjunct1]
  note c6 = switchToApp_classifies
    [OF example_got(1) example_msg refl refl example_enable(1)
        example_tape[of "RetMsg (event StateDone (EventTypeOther 9) 0 0 [72])" "[]"] example_done
        f[of "EventTypeOther 9" 0 0] z[of "EventTypeOther 9" 0 "[72]"] refl refl refl, THEN conjunct1]
  from c0 c1 c2 c3 c4 c5 c6 show ?thesis
    by (simp add: event_def exampleOps_def noSignal_def)
qed

text \<open>
  C4 as stated fails: a SyscallCanBePatched event whose signal \<open>maybePatchSignalInfo\<close>
  patches is returned as isSyscall false, shouldPatchSyscall false.
\<close>

theorem switchToApp_patchable_counterexample:
  "State (event StateDone EventTypeSyscallCanBePatched 0 11 [72]) = StateDone \<and>
   Type (event StateDone EventTypeSyscallCanBePatched 0 11 [72]) = EventTypeSyscallCanBePatched \<and>
   Err (event StateDone EventTypeSyscallCanBePatched 0 11 [72]) = 0 \<and>
   fst (switchToApp exampleOps 1 20 0
          (exampleSentry [RetMsg (event StateDone EventTypeSyscallCanBePatched 0 11 [72])]))
     = Return (False, False, None) \<and>
   fst (switchToApp exampleOps 1 20 0
          (exampleSentry [RetMsg (event StateDone EventTypeSyscallCanBePatched 0 11 [72])]))
     \<noteq> Return (True, True, None)"
  by (simp add: switch_simps)

text \<open>
  C5. \<open>switchToApp\<close> has its stub thread and \<open>c.interrupt.Enable\<close> answers false:
  the call returns (false, false, nil); the context's signal info is the one
  synthesized for \<open>SignalInterrupt\<close>, every other field zero; the message is as
  \<open>restoreFPState\<close> left it, no registers published; and nothing was asked of the
  environment after \<open>getSysmsgThread\<close>, so the stub was not waited for.
\<close>

theorem switchToApp_pending_interrupt:
  assumes got: "getSysmsgThread ops s ac c st0 = (Return (Inr sysThread), st1)"
    and m: "msg sysThread = Some m"
    and a0: "a0 = (acs st1 ac)\<lparr>StateData_Regs :=
                     resetSysemuRegs ops (sysThread_thread sysThread) (StateData_Regs (acs st1 ac))\<rparr>"
    and m1: "m1 = restoreFPState ops m (fpuStateToMsgOffset sysThread) a0"
    and pend: "fst (interruptEnable ops (interrupt (ctxs st1 c)) (sysThread\<lparr>msg := Some m1\<rparr>)) = False"
  shows "fst (switchToApp ops s c ac st0) = Return (False, False, None) \<and>
         signalInfo (ctxs (snd (switchToApp ops s c ac st0)) c) =
           \<lparr>Signo = word_of_int (SignalInterrupt ops), Errno_si = 0, Code = 0,
            Fields = replicate 112 0\<rparr> \<and>
         ctx_sysmsgThread (ctxs (snd (switchToApp ops s c ac st0)) c) = Some (sysThread\<lparr>msg := Some m1\<rparr>) \<and>
         trace (snd (switchToApp ops s c ac st0)) = trace st1 \<and>
         tape (snd (switchToApp ops s c ac st0)) = tape st1"
proof -
  obtain en fw where e:
    "interruptEnable ops (interrupt (ctxs st1 c)) (sysThread\<lparr>msg := Some m1\<rparr>) = (en, fw)"
    by (cases "interruptEnable ops (interrupt (ctxs st1 c)) (sysThread\<lparr>msg := Some m1\<rparr>)")
  with pend have en: "en = False" by simp
  show ?thesis
    using e[unfolded en m1 a0]
    by (simp add: switchToApp_def got m a0 m1 store_defs Let_def)
qed

theorem switchToApp_pending_interrupt_witness:
  "fst (switchToApp exampleOps 1 21 0 (exampleSentry [])) = Return (False, False, None) \<and>
   signalInfo (ctxs (snd (switchToApp exampleOps 1 21 0 (exampleSentry []))) 21) =
     \<lparr>Signo = 17, Errno_si = 0, Code = 0, Fields = replicate 112 0\<rparr> \<and>
   ctx_sysmsgThread (ctxs (snd (switchToApp exampleOps 1 21 0 (exampleSentry []))) 21)
     = Some exampleSysThread \<and>
   trace (snd (switchToApp exampleOps 1 21 0 (exampleSentry []))) = [] \<and>
   tape (snd (switchToApp exampleOps 1 21 0 (exampleSentry []))) = []"
  using switchToApp_pending_interrupt
    [OF example_got(2) example_msg refl refl example_enable(2), of "[]"]
  by (simp add: exampleOps_def exampleSentry_def exampleSysThread_def)

text \<open>
  C6. Interrupts enabled and the stub's answer in state Done: however the call ends,
  the stub thread bound to the context holds as FPU-state offset what
  \<open>FPUStateOffset\<close> reads from the message when the event is not SyscallTrap, and 0,
  whatever the message says, when it is SyscallTrap.
\<close>

theorem switchToApp_fpu_offset:
  assumes got: "getSysmsgThread ops s ac c st0 = (Return (Inr sysThread), st1)"
    and m: "msg sysThread = Some m"
    and a0: "a0 = (acs st1 ac)\<lparr>StateData_Regs :=
                     resetSysemuRegs ops (sysThread_thread sysThread) (StateData_Regs (acs st1 ac))\<rparr>"
    and m1: "m1 = restoreFPState ops m (fpuStateToMsgOffset sysThread) a0"
    and en: "fst (interruptEnable ops (interrupt (ctxs st1 c)) (sysThread\<lparr>msg := Some m1\<rparr>))"
    and answer: "tape st1 = RetMsg m' # rest"
    and isDone: "State m' = StateDone"
  shows "\<exists>sy. ctx_sysmsgThread (ctxs (snd (switchToApp ops s c ac st0)) c) = Some sy \<and>
              fpuStateToMsgOffset sy =
                (if Type m' \<noteq> EventTypeSyscallTrap then fst (FPUStateOffset ops m') else 0)"
proof -
  obtain fw where e:
    "interruptEnable ops (interrupt (ctxs st1 c)) (sysThread\<lparr>msg := Some m1\<rparr>) = (True, fw)"
    using en by (cases "interruptEnable ops (interrupt (ctxs st1 c)) (sysThread\<lparr>msg := Some m1\<rparr>)") simp
  note unfold = switchToApp_round_trip[OF got m a0 m1 e refl]
  show ?thesis
    unfolding unfold
    by (simp add: roundTrip_def waitEvent_def askMsg_def ext_def store_defs Let_def answer isDone
             split: prod.splits)
qed

theorem switchToApp_fpu_offset_witness:
  "(\<exists>sy. ctx_sysmsgThread (ctxs (snd (switchToApp exampleOps 1 20 0
             (exampleSentry [RetMsg (event StateDone EventTypeFault 0 0 [72])]))) 20) = Some sy \<and>
         fpuStateToMsgOffset sy = 72) \<and>
   (\<exists>sy. ctx_sysmsgThread (ctxs (snd (switchToApp exampleOps 1 20 0
             (exampleSentry [RetMsg (event StateDone EventTypeSyscallTrap 0 0 [72])]))) 20) = Some sy \<and>
         fpuStateToMsgOffset sy = 0)"
proof -
  note fault = switchToApp_fpu_offset
    [OF example_got(1) example_msg refl refl example_enable(1)
        example_tape[of "RetMsg (event StateDone EventTypeFault 0 0 [72])" "[]"] example_done]
  note trap = switchToApp_fpu_offset
    [OF example_got(1) example_msg refl refl example_enable(1)
        example_tape[of "RetMsg (event StateDone EventTypeSyscallTrap 0 0 [72])" "[]"] example_done]
  from fault trap show ?thesis
    by (simp add: event_def exampleOps_def)
qed

text \<open>
  Where the error code of the message is looked at. In \<open>switchToApp\<close>, a message in
  state Done with a nonzero error code panics when the FPU-state offset refresh that
  comes first did not fail (the event is SyscallTrap, for which there is no refresh, or
  \<open>FPUStateOffset\<close> gave no error). In \<open>getSysmsgThread\<close>, a new stub thread whose
  message has a nonzero error code when it reaches state None panics, whatever the
  offset.
\<close>

lemma in_band_error_panics:
  "(getSysmsgThread ops s ac c st0 = (Return (Inr sysThread), st1) \<and>
    msg sysThread = Some m \<and>
    fst (interruptEnable ops (interrupt (ctxs st1 c))
           (sysThread\<lparr>msg := Some (restoreFPState ops m (fpuStateToMsgOffset sysThread)
              ((acs st1 ac)\<lparr>StateData_Regs :=
                 resetSysemuRegs ops (sysThread_thread sysThread) (StateData_Regs (acs st1 ac))\<rparr>))\<rparr>)) \<and>
    tape st1 = RetMsg m' # rest \<and> State m' = StateDone \<and> Err m' \<noteq> 0 \<and>
    (Type m' = EventTypeSyscallTrap \<or> snd (FPUStateOffset ops m') = None)
    \<longrightarrow>
    fst (switchToApp ops s c ac st0) =
      Panic [Sprintf ''stub thread %d failed: err %d line %d: %s''
               [AInt (sint (tid (sysThread_thread sysThread))), AInt (sint (Err m')),
                AInt (sint (Line m')), AMsg m']]) \<and>
   ((\<forall>old. ctx_sysmsgThread (ctxs st c) = Some old \<longrightarrow> subproc old \<noteq> s) \<and>
    fst (newSysmsgThread ops s ac
           (case ctx_sysmsgThread (ctxs st c) of
              None \<Rightarrow> st
            | Some old \<Rightarrow> emit (Destroy (sint (tid (sysThread_thread old)))) st)) = Return fresh \<and>
    msg fresh = Some m0 \<and>
    tape (snd (newSysmsgThread ops s ac
           (case ctx_sysmsgThread (ctxs st c) of
              None \<Rightarrow> st
            | Some old \<Rightarrow> emit (Destroy (sint (tid (sysThread_thread old)))) st))) = RetMsg n' # rest' \<and>
    State n' = StateNone \<and> Err n' \<noteq> 0
    \<longrightarrow>
    fst (getSysmsgThread ops s ac c st) =
      Panic [Sprintf ''stub thread failed: %v (line %v)''
               [AInt (sint (Err n')), AInt (sint (Line n'))]])"
proof (intro conjI impI, goal_cases)
  case 1
  then have got: "getSysmsgThread ops s ac c st0 = (Return (Inr sysThread), st1)"
    and m: "msg sysThread = Some m"
    and en: "fst (interruptEnable ops (interrupt (ctxs st1 c))
           (sysThread\<lparr>msg := Some (restoreFPState ops m (fpuStateToMsgOffset sysThread)
              ((acs st1 ac)\<lparr>StateData_Regs :=
                 resetSysemuRegs ops (sysThread_thread sysThread) (StateData_Regs (acs st1 ac))\<rparr>))\<rparr>))"
    and answer: "tape st1 = RetMsg m' # rest" and isDone: "State m' = StateDone"
    and err: "Err m' \<noteq> 0"
    and fpu: "Type m' = EventTypeSyscallTrap \<or> snd (FPUStateOffset ops m') = None"
    by simp_all
  obtain fw where e:
    "interruptEnable ops (interrupt (ctxs st1 c))
           (sysThread\<lparr>msg := Some (restoreFPState ops m (fpuStateToMsgOffset sysThread)
              ((acs st1 ac)\<lparr>StateData_Regs :=
                 resetSysemuRegs ops (sysThread_thread sysThread) (StateData_Regs (acs st1 ac))\<rparr>))\<rparr>)
       = (True, fw)"
    using en by (metis prod.collapse)
  note unfold = switchToApp_round_trip[OF got m refl refl e refl]
  obtain off ferr where f: "FPUStateOffset ops m' = (off, ferr)"
    by (cases "FPUStateOffset ops m'")
  show ?case
    unfolding unfold
    using fpu err f
    by (auto simp: roundTrip_def waitEvent_def askMsg_def ext_def store_defs Let_def answer isDone
             split: prod.splits)
next
  case 2
  let ?st = "case ctx_sysmsgThread (ctxs st c) of
              None \<Rightarrow> st
            | Some old \<Rightarrow> emit (Destroy (sint (tid (sysThread_thread old)))) st"
  obtain r st1 where new: "newSysmsgThread ops s ac ?st = (r, st1)"
    by (cases "newSysmsgThread ops s ac ?st")
  with 2 have r: "r = Return fresh" and t: "tape st1 = RetMsg n' # rest'" by simp_all
  have get: "getSysmsgThread ops s ac c st = bind (newSysmsgThread ops s ac ?st) (startSysmsgThread ops c)"
    using 2 by (auto simp: getSysmsgThread_def split: option.splits)
  show ?case
    using 2 unfolding get new r
    by (simp add: startSysmsgThread_def waitEvent_def askMsg_def ext_def t)
qed

text \<open>
  C7. A nonzero error code in the message is to end in a panic, in the round-trip of
  \<open>switchToApp\<close> and when a stub thread is started. \<open>getSysmsgThread\<close> looks at the
  error code before it reads the FPU-state offset: a message with error code 5 and an
  offset that cannot be read panics. \<open>switchToApp\<close> reads the offset first and returns
  when the reading fails: the message of a Fault event with error code 5 and such an
  offset is answered with the reading error, the error code never looked at, and there
  is no panic. With the same error code and a SyscallTrap event \<open>switchToApp\<close> panics.
\<close>

theorem switchToApp_returns_past_in_band_error:
  "State (event StateDone EventTypeFault 5 0 []) = StateDone \<and>
   Err (event StateDone EventTypeFault 5 0 []) = 5 \<and>
   snd (FPUStateOffset exampleOps (event StateDone EventTypeFault 5 0 []))
     = Some (ErrOther ''FPU offset has been corrupted'') \<and>
   fst (switchToApp exampleOps 1 20 0 (exampleSentry [RetMsg (event StateDone EventTypeFault 5 0 [])]))
     = Return (False, False, Some (ErrOther ''FPU offset has been corrupted'')) \<and>
   fst (switchToApp exampleOps 1 20 0
          (exampleSentry [RetMsg (event StateDone EventTypeSyscallTrap 5 0 [])]))
     = Panic [Sprintf ''stub thread %d failed: err %d line %d: %s''
                [AInt 7, AInt 5, AInt 33, AMsg (event StateDone EventTypeSyscallTrap 5 0 [])]] \<and>
   fst (getSysmsgThread exampleOps 1 0 22
          (exampleSentry (creationAnswers @ [RetMsg (event StateNone EventTypeFault 5 0 [])])))
     = Panic [Sprintf ''stub thread failed: %v (line %v)'' [AInt 5, AInt 33]]"
proof -
  let ?ev = "event StateDone EventTypeSyscallTrap 5 0 []"
  let ?st = "exampleSentry (creationAnswers @ [RetMsg (event StateNone EventTypeFault 5 0 [])])"
  have unbound: "ctx_sysmsgThread (ctxs ?st 22) = None"
    by (simp add: exampleSentry_def faultAt_def)
  have h1: "getSysmsgThread exampleOps 1 0 20 (exampleSentry [RetMsg ?ev])
        = (Return (Inr exampleSysThread), exampleSentry [RetMsg ?ev]) \<and>
      msg exampleSysThread = Some idleMsg \<and>
      fst (interruptEnable exampleOps (interrupt (ctxs (exampleSentry [RetMsg ?ev]) 20))
             (exampleSysThread\<lparr>msg := Some (restoreFPState exampleOps idleMsg
                (fpuStateToMsgOffset exampleSysThread)
                ((acs (exampleSentry [RetMsg ?ev]) 0)\<lparr>StateData_Regs :=
                   resetSysemuRegs exampleOps (sysThread_thread exampleSysThread)
                     (StateData_Regs (acs (exampleSentry [RetMsg ?ev]) 0))\<rparr>))\<rparr>)) \<and>
      tape (exampleSentry [RetMsg ?ev]) = RetMsg ?ev # [] \<and> State ?ev = StateDone \<and> Err ?ev \<noteq> 0 \<and>
      (Type ?ev = EventTypeSyscallTrap \<or> snd (FPUStateOffset exampleOps ?ev) = None)"
    using example_got(1) example_msg example_enable(1) example_tape example_done
    by (simp add: event_def)
  have h2: "(\<forall>old. ctx_sysmsgThread (ctxs ?st 22) = Some old \<longrightarrow> subproc old \<noteq> 1) \<and>
      fst (newSysmsgThread exampleOps 1 0
             (case ctx_sysmsgThread (ctxs ?st 22) of
                None \<Rightarrow> ?st
              | Some old \<Rightarrow> emit (Destroy (sint (tid (sysThread_thread old)))) ?st)) = Return createdThread \<and>
      msg createdThread = Some (idleMsg\<lparr>Self := 0x101800, Syshandler := 0x7040,
                                       SyshandlerStack := 0x103800, State := StateDone\<rparr>) \<and>
      tape (snd (newSysmsgThread exampleOps 1 0
             (case ctx_sysmsgThread (ctxs ?st 22) of
                None \<Rightarrow> ?st
              | Some old \<Rightarrow> emit (Destroy (sint (tid (sysThread_thread old)))) ?st)))
        = RetMsg (event StateNone EventTypeFault 5 0 []) # [] \<and>
      State (event StateNone EventTypeFault 5 0 []) = StateNone \<and>
      Err (event StateNone EventTypeFault 5 0 []) \<noteq> 0"
    unfolding unbound option.case
    using created created_tape
    by (simp add: createdThread_def event_def)
  note a = in_band_error_panics[THEN conjunct1, rule_format, OF h1]
  note b = in_band_error_panics[THEN conjunct2, rule_format, OF h2]
  have c: "fst (switchToApp exampleOps 1 20 0
                 (exampleSentry [RetMsg (event StateDone EventTypeFault 5 0 [])]))
     = Return (False, False, Some (ErrOther ''FPU offset has been corrupted''))"
    by (simp add: switch_simps)
  have d: "snd (FPUStateOffset exampleOps (event StateDone EventTypeFault 5 0 []))
     = Some (ErrOther ''FPU offset has been corrupted'')"
    by (simp add: exampleOps_def event_def)
  from a b c d show ?thesis
    by (simp add: exampleSysThread_def exampleThread_def event_def)
qed




text \<open>
  C9. The dispatcher is nine pushes, the call of the handler, the nine pops of the
  same registers in the reverse order, then the rest. A handler that gives back the
  stack pointer and the nine saved slots as it received them finds every one of the
  nine registers restored. After the pops the stack pointer is the application's.
  If the event type is Syscall the dispatcher issues one \<open>syscall\<close> with number
  \<open>0xffff\<close> and jumps to the saved return address; if it is not and the interrupt flag
  is set, it writes Interrupt into the event type and faults; otherwise it jumps to the
  saved return address, and nothing traps.
\<close>

theorem export_syshandler_dispatch:
  "export_syshandler =
     map Push saved @ [Callq_syshandler] @ map Pop (rev saved) @ drop 19 export_syshandler \<and>
   length saved = 9 \<and>
   fst (run h None export_syshandler m) =
     (if Type (sysmsg (h (entered m))) = EventTypeSyscall then JumpedTo (RetAddr (sysmsg (h (entered m))))
      else if Interrupt (sysmsg (h (entered m))) \<noteq> 0 then Faulted
      else JumpedTo (RetAddr (sysmsg (h (entered m))))) \<and>
   events (snd (run h None export_syshandler m)) =
     events (h (entered m)) @
     (if Type (sysmsg (h (entered m))) = EventTypeSyscall then [SyscallTrap 0xffff]
      else if Interrupt (sysmsg (h (entered m))) \<noteq> 0 then [FaultTrap]
      else []) \<and>
   sysmsg (snd (run h None export_syshandler m)) =
     (if Type (sysmsg (h (entered m))) \<noteq> EventTypeSyscall \<and> Interrupt (sysmsg (h (entered m))) \<noteq> 0
      then (sysmsg (h (entered m)))\<lparr>Type := EventTypeInterrupt\<rparr>
      else sysmsg (h (entered m))) \<and>
   gpr (snd (run h None export_syshandler m)) RSP = AppStack (sysmsg (h (entered m))) \<and>
   (gpr (h (entered m)) RSP = gpr (entered m) RSP \<and>
    (\<forall>k \<in> {1..9}. mem (h (entered m)) (gpr m RSP - 8 * of_nat k)
                      = mem (entered m) (gpr m RSP - 8 * of_nat k)) \<longrightarrow>
    (\<forall>r \<in> set saved. gpr (snd (run h None export_syshandler m)) r = gpr m r))"
proof (intro conjI impI)
  assume c: "gpr (h (entered m)) RSP = gpr (entered m) RSP \<and>
    (\<forall>k \<in> {1..9}. mem (h (entered m)) (gpr m RSP - 8 * of_nat k)
                      = mem (entered m) (gpr m RSP - 8 * of_nat k))"
  then have rsp: "gpr (h (entered m)) RSP = gpr m RSP - 72"
    by (simp add: entered_stack)
  have slots: "mem (h (entered m)) (gpr m RSP - 8 * of_nat k) = mem (entered m) (gpr m RSP - 8 * of_nat k)"
    if "k \<in> {1..9}" for k
    using c that by blast
  note s = slots[of 1, simplified] slots[of 2, simplified] slots[of 3, simplified]
    slots[of 4, simplified] slots[of 5, simplified] slots[of 6, simplified]
    slots[of 7, simplified] slots[of 8, simplified] slots[of 9, simplified]
  show "\<forall>r \<in> set saved. gpr (snd (run h None export_syshandler m)) r = gpr m r"
    unfolding run_prologue
    using run_epilogue_restores[OF rsp, of h] s entered_stack[of m]
    by (simp add: saved_def)
qed (simp_all add: run_prologue run_epilogue_outcome, simp_all add: export_syshandler_def saved_def)

theorem export_syshandler_dispatch_witness:
  "fst (run (exampleHandler EventTypeSyscall 0) None export_syshandler exampleCpu) = JumpedTo 0x401000 \<and>
   events (snd (run (exampleHandler EventTypeSyscall 0) None export_syshandler exampleCpu))
     = [SyscallTrap 0xffff] \<and>
   map (gpr (snd (run (exampleHandler EventTypeSyscall 0) None export_syshandler exampleCpu))) saved
     = [9, 8, 7, 6, 5, 4, 3, 2, 1] \<and>
   gpr (snd (run (exampleHandler EventTypeSyscall 0) None export_syshandler exampleCpu)) RSP
     = 0x7fff0000 \<and>
   fst (run (exampleHandler EventTypeFault 1) None export_syshandler exampleCpu) = Faulted \<and>
   events (snd (run (exampleHandler EventTypeFault 1) None export_syshandler exampleCpu))
     = [FaultTrap] \<and>
   Type (sysmsg (snd (run (exampleHandler EventTypeFault 1) None export_syshandler exampleCpu)))
     = EventTypeInterrupt \<and>
   fst (run (exampleHandler EventTypeFault 0) None export_syshandler exampleCpu) = JumpedTo 0x401000 \<and>
   events (snd (run (exampleHandler EventTypeFault 0) None export_syshandler exampleCpu)) = []"
proof -
  have keep: "gpr (exampleHandler ty intr (entered exampleCpu)) RSP = gpr (entered exampleCpu) RSP \<and>
      (\<forall>k \<in> {1..9}. mem (exampleHandler ty intr (entered exampleCpu)) (gpr exampleCpu RSP - 8 * of_nat k)
                        = mem (entered exampleCpu) (gpr exampleCpu RSP - 8 * of_nat k))" for ty intr
    by (simp add: exampleHandler_def)
  have after: "sysmsg (exampleHandler ty intr (entered exampleCpu)) =
      idleMsg\<lparr>RetAddr := 0x401000, AppStack := 0x7fff0000, Type := ty, Interrupt := intr\<rparr>"
    "events (exampleHandler ty intr (entered exampleCpu)) = []" for ty intr
    by (simp_all add: exampleHandler_def exampleCpu_def entered_def saved_def push_def)
  have vals: "map (gpr exampleCpu) saved = [9, 8, 7, 6, 5, 4, 3, 2, 1]"
    by (simp add: exampleCpu_def saved_def)
  have msg0: "RetAddr (idleMsg\<lparr>RetAddr := 0x401000, AppStack := 0x7fff0000, Type := ty, Interrupt := intr\<rparr>)
        = 0x401000"
      "AppStack (idleMsg\<lparr>RetAddr := 0x401000, AppStack := 0x7fff0000, Type := ty, Interrupt := intr\<rparr>)
        = 0x7fff0000"
      "Type (idleMsg\<lparr>RetAddr := 0x401000, AppStack := 0x7fff0000, Type := ty, Interrupt := intr\<rparr>) = ty"
      "Interrupt (idleMsg\<lparr>RetAddr := 0x401000, AppStack := 0x7fff0000, Type := ty, Interrupt := intr\<rparr>)
        = intr" for ty intr
    by simp_all
  note sys = export_syshandler_dispatch
    [of "exampleHandler EventTypeSyscall 0" exampleCpu, unfolded after msg0]
  note int = export_syshandler_dispatch
    [of "exampleHandler EventTypeFault 1" exampleCpu, unfolded after msg0]
  note ret = export_syshandler_dispatch
    [of "exampleHandler EventTypeFault 0" exampleCpu, unfolded after msg0]
  from sys keep[of EventTypeSyscall 0]
  have "\<forall>r \<in> set saved.
      gpr (snd (run (exampleHandler EventTypeSyscall 0) None export_syshandler exampleCpu)) r
        = gpr exampleCpu r"
    by blast
  then have regs:
    "map (gpr (snd (run (exampleHandler EventTypeSyscall 0) None export_syshandler exampleCpu))) saved
       = [9, 8, 7, 6, 5, 4, 3, 2, 1]"
    unfolding vals[symmetric] by simp
  from sys int ret regs show ?thesis
    by simp
qed

text \<open>
  C10. \<open>Unmap\<close> returns no error; it ends in a panic in two cases. When
  \<open>addr + len\<close> wraps around it panics at once: the state is the one it was called in,
  whatever that state is. When the injected \<open>munmap\<close> fails it panics with the fault
  caches already forgotten. So when \<open>Unmap\<close> returns, the sum did not wrap around, the
  caches are forgotten and \<open>munmap\<close> has succeeded.
\<close>

theorem Unmap_panics:
  "(\<not> addr \<le> addr + len \<longrightarrow>
      Unmap ops s addr len st =
        (Panic [Sprintf ''addr %#x + length %#x overflows'' [AInt (uint addr), AInt (uint len)]], st)) \<and>
   (addr \<le> addr + len \<longrightarrow>
      (\<forall>rval e rest. tape st = RetSyscall rval (Some e) # rest \<longrightarrow>
         Unmap ops s addr len st =
           (Panic [Sprintf ''munmap(%x, %x)) failed: %v''
                     [AInt (uint addr), AInt (uint len), AErr (Some e)]],
            (forgetFaults s \<lparr>Start = addr, End = addr + len\<rparr> (contexts (subprocs st s)) st)
              \<lparr>trace := trace st @ [Syscall s SYS_MUNMAP [addr, len]], tape := rest\<rparr>))) \<and>
   (\<forall>st'. Unmap ops s addr len st = (Return (), st') \<longrightarrow>
      addr \<le> addr + len \<and>
      (\<exists>rval rest. tape st = RetSyscall rval None # rest \<and>
         st' = (forgetFaults s \<lparr>Start = addr, End = addr + len\<rparr> (contexts (subprocs st s)) st)
                 \<lparr>trace := trace st @ [Syscall s SYS_MUNMAP [addr, len]], tape := rest\<rparr>))"
proof (intro conjI impI allI)
  assume "\<not> addr \<le> addr + len"
  then show "Unmap ops s addr len st =
        (Panic [Sprintf ''addr %#x + length %#x overflows'' [AInt (uint addr), AInt (uint len)]], st)"
    by (simp add: Unmap_def ToRange_def)
next
  fix rval e rest
  assume "addr \<le> addr + len" and "tape st = RetSyscall rval (Some e) # rest"
  then show "Unmap ops s addr len st =
           (Panic [Sprintf ''munmap(%x, %x)) failed: %v''
                     [AInt (uint addr), AInt (uint len), AErr (Some e)]],
            (forgetFaults s \<lparr>Start = addr, End = addr + len\<rparr> (contexts (subprocs st s)) st)
              \<lparr>trace := trace st @ [Syscall s SYS_MUNMAP [addr, len]], tape := rest\<rparr>)"
    by (simp add: Unmap_def ToRange_def Let_def askSyscall_def ext_def forgetFaults_frame)
next
  fix st'
  assume ret: "Unmap ops s addr len st = (Return (), st')"
  show ok: "addr \<le> addr + len"
    using ret by (auto simp: Unmap_def ToRange_def split: if_splits)
  let ?st1 = "forgetFaults s \<lparr>Start = addr, End = addr + len\<rparr> (contexts (subprocs st s)) st"
  from ret ok show "\<exists>rval rest. tape st = RetSyscall rval None # rest \<and>
         st' = ?st1\<lparr>trace := trace st @ [Syscall s SYS_MUNMAP [addr, len]], tape := rest\<rparr>"
    by (auto simp: Unmap_def ToRange_def Let_def askSyscall_def ext_def forgetFaults_frame bind_def
             split: list.splits response.splits if_splits)
qed

theorem Unmap_panics_witness:
  "\<not> (0xffffffffffffff00 :: 64 word) \<le> 0xffffffffffffff00 + 0x1000 \<and>
   Unmap exampleOps 1 0xffffffffffffff00 0x1000 (exampleSentry [RetSyscall 0 None]) =
     (Panic [Sprintf ''addr %#x + length %#x overflows'' [AInt 0xffffffffffffff00, AInt 0x1000]],
      exampleSentry [RetSyscall 0 None]) \<and>
   fst (Unmap exampleOps 1 0x4000 0x2000 (exampleSentry [RetSyscall 0 (Some (Errno 22))])) =
     Panic [Sprintf ''munmap(%x, %x)) failed: %v'' [AInt 0x4000, AInt 0x2000, AErr (Some (Errno 22))]] \<and>
   lastFaultSP (ctxs (snd (Unmap exampleOps 1 0x4000 0x2000
                             (exampleSentry [RetSyscall 0 (Some (Errno 22))]))) 10) = None \<and>
   Unmap exampleOps 1 0x4000 0x2000 (exampleSentry [RetSyscall 0 None]) =
     (Return (),
      (forgetFaults 1 \<lparr>Start = 0x4000, End = 0x4000 + 0x2000\<rparr> [10, 11, 12]
         (exampleSentry [RetSyscall 0 None]))
        \<lparr>trace := [Syscall 1 SYS_MUNMAP [0x4000, 0x2000]], tape := []\<rparr>)"
proof -
  have over: "\<not> (0xffffffffffffff00 :: 64 word) \<le> 0xffffffffffffff00 + 0x1000" by simp
  have ok: "(0x4000 :: 64 word) \<le> 0x4000 + 0x2000" by simp
  note a = Unmap_panics[of "0xffffffffffffff00" "0x1000" exampleOps 1 "exampleSentry [RetSyscall 0 None]",
                        THEN conjunct1, rule_format, OF over]
  have t: "tape (exampleSentry [RetSyscall 0 (Some (Errno 22))]) = RetSyscall 0 (Some (Errno 22)) # []"
    by (simp add: exampleSentry_def)
  note b = Unmap_panics[of "0x4000" "0x2000" exampleOps 1 "exampleSentry [RetSyscall 0 (Some (Errno 22))]",
                        THEN conjunct2, THEN conjunct1, rule_format, OF ok t]
  have r: "Unmap exampleOps 1 0x4000 0x2000 (exampleSentry [RetSyscall 0 None]) =
     (Return (),
      (forgetFaults 1 \<lparr>Start = 0x4000, End = 0x4000 + 0x2000\<rparr> [10, 11, 12]
         (exampleSentry [RetSyscall 0 None]))
        \<lparr>trace := [Syscall 1 SYS_MUNMAP [0x4000, 0x2000]], tape := []\<rparr>)"
    by (simp add: Unmap_def ToRange_def askSyscall_def ext_def forgetFaults_frame
          exampleSentry_def exampleSubprocess_def)
  note c = Unmap_panics[of "0x4000" "0x2000" exampleOps 1 "exampleSentry [RetSyscall 0 None]",
                        THEN conjunct2, THEN conjunct2, rule_format, OF r]
  from over a b c r show ?thesis
    by (simp add: forgetFaults_ctxs Contains_def exampleSentry_def exampleSubprocess_def faultAt_def)
qed

end
